theory Spec2Isabelle
  imports Complex_Main
begin

section \<open>Python strings\<close>

text \<open>
  A Python \<open>str\<close> is modelled as a \<open>string\<close>, one \<open>char\<close> per character; the
  characters that fit are the code points below 256.
\<close>

text \<open>\<open>sub in s\<close> for two strings: \<open>sub\<close> occurs in \<open>s\<close> as a contiguous run.\<close>

fun starts_with :: "string \<Rightarrow> string \<Rightarrow> bool" where
  "starts_with s [] = True"
| "starts_with [] (p # ps) = False"
| "starts_with (c # cs) (p # ps) = (c = p \<and> starts_with cs ps)"

fun str_in :: "string \<Rightarrow> string \<Rightarrow> bool" where
  "str_in sub [] = (sub = [])"
| "str_in sub (c # cs) = (starts_with (c # cs) sub \<or> str_in sub cs)"

text \<open>
  \<open>str.lower()\<close>: on the code points below 256 it moves \<open>A\<close>..\<open>Z\<close> and the
  accented capitals \<open>0xC0\<close>..\<open>0xDE\<close> (all but the multiplication sign \<open>0xD7\<close>)
  32 places up and leaves every other character alone.
\<close>

definition upper_chars :: string where
  "upper_chars = ''ABCDEFGHIJKLMNOPQRSTUVWXYZ'' @
     [CHR 0xC0, CHR 0xC1, CHR 0xC2, CHR 0xC3, CHR 0xC4, CHR 0xC5, CHR 0xC6, CHR 0xC7,
      CHR 0xC8, CHR 0xC9, CHR 0xCA, CHR 0xCB, CHR 0xCC, CHR 0xCD, CHR 0xCE, CHR 0xCF,
      CHR 0xD0, CHR 0xD1, CHR 0xD2, CHR 0xD3, CHR 0xD4, CHR 0xD5, CHR 0xD6,
      CHR 0xD8, CHR 0xD9, CHR 0xDA, CHR 0xDB, CHR 0xDC, CHR 0xDD, CHR 0xDE]"

definition lower_chars :: string where
  "lower_chars = ''abcdefghijklmnopqrstuvwxyz'' @
     [CHR 0xE0, CHR 0xE1, CHR 0xE2, CHR 0xE3, CHR 0xE4, CHR 0xE5, CHR 0xE6, CHR 0xE7,
      CHR 0xE8, CHR 0xE9, CHR 0xEA, CHR 0xEB, CHR 0xEC, CHR 0xED, CHR 0xEE, CHR 0xEF,
      CHR 0xF0, CHR 0xF1, CHR 0xF2, CHR 0xF3, CHR 0xF4, CHR 0xF5, CHR 0xF6,
      CHR 0xF8, CHR 0xF9, CHR 0xFA, CHR 0xFB, CHR 0xFC, CHR 0xFD, CHR 0xFE]"

definition lower_char :: "char \<Rightarrow> char" where
  "lower_char c = (case map_of (zip upper_chars lower_chars) c of Some d \<Rightarrow> d | None \<Rightarrow> c)"

definition lower :: "string \<Rightarrow> string" where
  "lower s = map lower_char s"

text \<open>\<open>any(p in s for p in ps)\<close>.\<close>

definition any_in :: "string list \<Rightarrow> string \<Rightarrow> bool" where
  "any_in ps s = list_ex (\<lambda>p. str_in p s) ps"


section \<open>IntentParser (agent.py)\<close>

datatype QuestionType = PRICING | CONTACT | LOCATION | FACILITY | GENERAL

record UserIntent =
  type :: QuestionType
  is_specific :: bool
  entity :: "string option"
  timeframe :: "string option"

text \<open>The pattern tables of \<open>IntentParser.__init__\<close>, in the dictionaries' insertion order.\<close>

definition pricing_patterns :: "(string \<times> string list) list" where
  "pricing_patterns =
    [(''co-working'', [''coworking'', ''shared desk'', ''hot desk'', ''shared space'',
                       ''per seat'', ''seat cost'']),
     (''private_office'', [''private office'', ''private cabin'', ''dedicated office'',
                           ''team room'']),
     (''day_pass'', [''day pass'', ''daily pass'', ''trial'', ''visit day'']),
     (''virtual_office'', [''virtual office'', ''business address'', ''mail service'']),
     (''meeting_room'', [''meeting room'', ''conference room'', ''board room'']),
     (''parking'', [''parking'', ''car parking'', ''vehicle parking''])]"

definition location_patterns :: "(string \<times> string list) list" where
  "location_patterns =
    [(''koramangala'', [''koramangala'', ''koramangla'']),
     (''whitefield'', [''whitefield'', ''itpl'']),
     (''electronic_city'', [''electronic city'', ''ecity'']),
     (''indiranagar'', [''indiranagar'', ''indira nagar'']),
     (''mg_road'', [''mg road'', ''brigade road''])]"

definition contact_patterns :: "(string \<times> string list) list" where
  "contact_patterns =
    [(''sales'', [''sales'', ''visit'', ''tour'', ''demo'', ''book'']),
     (''support'', [''support'', ''help'', ''issue'', ''problem'', ''complaint'']),
     (''corporate'', [''corporate'', ''business'', ''enterprise'', ''company'']),
     (''general'', [''contact'', ''phone'', ''email'', ''number'', ''reach''])]"

text \<open>The keyword lists that \<open>parse\<close> tests, in the order of its \<open>if\<close>/\<open>elif\<close> chain.\<close>

definition pricing_keywords :: "string list" where
  "pricing_keywords = [''price'', ''cost'', ''how much'', ''rate'', ''fee'']"

definition contact_keywords :: "string list" where
  "contact_keywords = [''contact'', ''call'', ''email'', ''phone'', ''number'', ''visit'', ''tour'']"

definition location_keywords :: "string list" where
  "location_keywords = [''where'', ''location'', ''address'', ''center'', ''branch'']"

definition facility_keywords :: "string list" where
  "facility_keywords =
     [''facility'', ''amenity'', ''service'', ''wifi'', ''internet'', ''parking'', ''meeting'']"

text \<open>
  The loop \<open>for entity_type, patterns in table.items(): if any(...): entity = entity_type; break\<close>:
  the first table row with a pattern occurring in the question, \<open>None\<close> when the loop runs out.
\<close>

fun first_entity :: "(string \<times> string list) list \<Rightarrow> string \<Rightarrow> string option" where
  "first_entity [] question = None"
| "first_entity ((entity_type, patterns) # rest) question =
     (if any_in patterns question then Some entity_type else first_entity rest question)"

definition parse_pricing_intent :: "string \<Rightarrow> UserIntent" where
  "parse_pricing_intent question =
     (let entity = first_entity pricing_patterns question;
          timeframe =
            (if str_in ''month'' question \<or> str_in ''monthly'' question then Some ''monthly''
             else if str_in ''day'' question \<or> str_in ''daily'' question then Some ''daily''
             else if str_in ''hour'' question \<or> str_in ''hourly'' question then Some ''hourly''
             else None)
      in \<lparr>type = PRICING, is_specific = (entity \<noteq> None), entity = entity,
          timeframe = timeframe\<rparr>)"

definition parse_contact_intent :: "string \<Rightarrow> UserIntent" where
  "parse_contact_intent question =
     (let entity = first_entity contact_patterns question
      in \<lparr>type = CONTACT, is_specific = (entity \<noteq> None), entity = entity, timeframe = None\<rparr>)"

definition parse_location_intent :: "string \<Rightarrow> UserIntent" where
  "parse_location_intent question =
     (let entity = first_entity location_patterns question
      in \<lparr>type = LOCATION, is_specific = (entity \<noteq> None), entity = entity, timeframe = None\<rparr>)"

definition parse_facility_intent :: "string \<Rightarrow> UserIntent" where
  "parse_facility_intent question =
     (let entity =
        (if str_in ''parking'' question then Some ''parking''
         else if str_in ''wifi'' question \<or> str_in ''internet'' question then Some ''internet''
         else if str_in ''meeting'' question then Some ''meeting_room''
         else if str_in ''24/7'' question \<or> str_in ''24 hour'' question then Some ''access_hours''
         else None)
      in \<lparr>type = FACILITY, is_specific = (entity \<noteq> None), entity = entity, timeframe = None\<rparr>)"

definition parse :: "string \<Rightarrow> UserIntent" where
  "parse question =
     (let question_lower = lower question in
      if any_in pricing_keywords question_lower then parse_pricing_intent question_lower
      else if any_in contact_keywords question_lower then parse_contact_intent question_lower
      else if any_in location_keywords question_lower then parse_location_intent question_lower
      else if any_in facility_keywords question_lower then parse_facility_intent question_lower
      else \<lparr>type = GENERAL, is_specific = False, entity = None, timeframe = None\<rparr>)"


section \<open>Exceptions and dictionaries\<close>

text \<open>
  The exceptions a model can meet. \<open>SystemExit\<close> and \<open>KeyboardInterrupt\<close> derive from
  \<open>BaseException\<close> only: \<open>except Exception\<close> lets them through, a bare \<open>except:\<close>
  catches them.
\<close>

datatype error =
    KeyError | TypeError | NameError | AttributeError | UnboundLocalError | ValueError
  | IndexError | RuntimeError | SystemExit | KeyboardInterrupt

definition is_Exception :: "error \<Rightarrow> bool" where
  "is_Exception e = (e \<noteq> SystemExit \<and> e \<noteq> KeyboardInterrupt)"

text \<open>Sequencing: the first exception raised ends the computation.\<close>

definition and_then :: "error + 'a \<Rightarrow> ('a \<Rightarrow> error + 'b) \<Rightarrow> error + 'b" where
  "and_then r f = (case r of Inl e \<Rightarrow> Inl e | Inr v \<Rightarrow> f v)"

text \<open>
  A \<open>dict\<close> with string keys is an association list in insertion order with no key twice.
  \<open>dict_set\<close> is \<open>d[k] = v\<close>: an existing key keeps its place, a new one goes last.
\<close>

fun dict_set :: "(string \<times> 'v) list \<Rightarrow> string \<Rightarrow> 'v \<Rightarrow> (string \<times> 'v) list" where
  "dict_set [] k v = [(k, v)]"
| "dict_set ((k', v') # rest) k v =
     (if k' = k then (k, v) # rest else (k', v') # dict_set rest k v)"


section \<open>BizzHubKnowledgeBase (agent.py)\<close>

text \<open>
  The values of the fact table: display strings, lists of strings, a flag, and nested
  dictionaries. A key passed by a caller is a \<open>str\<close> or \<open>None\<close>, a \<open>string option\<close>.
\<close>

datatype kbval = KStr string | KList "string list" | KBool bool | KDict "(string \<times> kbval) list"

text \<open>\<open>key in d\<close>, \<open>d[key]\<close> and \<open>d.get(key, default)\<close> on a value of the table.\<close>

fun has_key :: "kbval \<Rightarrow> string option \<Rightarrow> error + bool" where
  "has_key (KDict d) None = Inr False"
| "has_key (KDict d) (Some k) = Inr (map_of d k \<noteq> None)"
| "has_key (KStr s) None = Inl TypeError"
| "has_key (KStr s) (Some k) = Inr (str_in k s)"
| "has_key (KList xs) None = Inr False"
| "has_key (KList xs) (Some k) = Inr (k \<in> set xs)"
| "has_key (KBool b) k = Inl TypeError"

fun getitem :: "kbval \<Rightarrow> string option \<Rightarrow> error + kbval" where
  "getitem (KDict d) None = Inl KeyError"
| "getitem (KDict d) (Some k) = (case map_of d k of None \<Rightarrow> Inl KeyError | Some v \<Rightarrow> Inr v)"
| "getitem v k = Inl TypeError"

fun get_default :: "kbval \<Rightarrow> string \<Rightarrow> kbval \<Rightarrow> error + kbval" where
  "get_default (KDict d) k dflt = (case map_of d k of None \<Rightarrow> Inr dflt | Some v \<Rightarrow> Inr v)"
| "get_default v k dflt = Inl AttributeError"

text \<open>The truth value of an argument that is a \<open>str\<close> or \<open>None\<close>.\<close>

fun truthy :: "string option \<Rightarrow> bool" where
  "truthy None = False"
| "truthy (Some s) = (s \<noteq> [])"

text \<open>
  The rupee sign U+20B9 lies outside the 8-bit range of \<open>char\<close>; the display strings carry
  it as its three UTF-8 bytes. No accessor looks inside a display string.
\<close>

definition rupee :: string where
  "rupee = [CHR 0xE2, CHR 0x82, CHR 0xB9]"

definition pricing_table :: kbval where
  "pricing_table = KDict
    [(''co-working'', KDict
       [(''description'', KStr ''Hot desk in shared workspace''),
        (''monthly'', KStr (rupee @ ''8,000 - '' @ rupee @ ''12,000'')),
        (''daily'', KStr (rupee @ ''800 - '' @ rupee @ ''1,200'')),
        (''includes'', KList [''Workspace access'', ''High-speed WiFi'', ''Tea/Coffee'',
                              ''Community events'', ''Basic printing''])]),
     (''dedicated_desk'', KDict
       [(''description'', KStr ''Personal dedicated desk''),
        (''monthly'', KStr (rupee @ ''10,000 - '' @ rupee @ ''15,000'')),
        (''includes'', KList [''Personal desk'', ''24/7 access'', ''Lockable storage'',
                              ''Meeting room credits'', ''Priority support''])]),
     (''private_cabin_2p'', KDict
       [(''description'', KStr ''Private office for 2 people''),
        (''monthly'', KStr (rupee @ ''25,000 - '' @ rupee @ ''30,000'')),
        (''includes'', KList [''Private locked room'', ''2 ergonomic chairs'',
                              ''Custom branding'', ''2 meeting room hours/day''])]),
     (''private_cabin_4p'', KDict
       [(''description'', KStr ''Private office for 4 people''),
        (''monthly'', KStr (rupee @ ''35,000 - '' @ rupee @ ''40,000'')),
        (''includes'', KList [''Private locked room'', ''4 ergonomic chairs'',
                              ''Custom layout'', ''4 meeting room hours/day''])]),
     (''day_pass'', KDict
       [(''description'', KStr ''Daily workspace access''),
        (''daily'', KStr (rupee @ ''800 - '' @ rupee @ ''1,200'')),
        (''includes'', KList [''Basic workspace'', ''WiFi'', ''Tea/Coffee'', ''Common areas''])]),
     (''virtual_office'', KDict
       [(''description'', KStr ''Business address & mail services''),
        (''monthly'', KStr (rupee @ ''2,000 - '' @ rupee @ ''5,000'')),
        (''includes'', KList [''Business address'', ''Mail handling'',
                              ''Meeting room discount'', ''Call answering''])]),
     (''parking'', KDict
       [(''description'', KStr ''Dedicated parking spot''),
        (''monthly'', KStr (rupee @ ''800 - '' @ rupee @ ''2,000'')),
        (''variations'', KDict
          [(''koramangala'', KStr (rupee @ ''1,000/month'')),
           (''whitefield'', KStr (rupee @ ''1,500/month'')),
           (''electronic_city'', KStr (rupee @ ''800/month'')),
           (''indiranagar'', KStr (rupee @ ''1,200/month'')),
           (''mg_road'', KStr (rupee @ ''2,000/month''))])]),
     (''meeting_room'', KDict
       [(''description'', KStr ''Meeting/conference room''),
        (''hourly'', KStr (rupee @ ''500 - '' @ rupee @ ''1,500'')),
        (''variations'', KDict
          [(''4_seats'', KStr (rupee @ ''500/hour'')),
           (''8_seats'', KStr (rupee @ ''800/hour'')),
           (''12_seats'', KStr (rupee @ ''1,200/hour'')),
           (''board_room'', KStr (rupee @ ''1,500/hour''))])])]"

definition contact_general :: kbval where
  "contact_general = KDict
     [(''phone'', KStr ''080-4111-1000''),
      (''email'', KStr ''info@bizzhub.com''),
      (''hours'', KStr ''9 AM - 7 PM''),
      (''website'', KStr ''https://www.bizzhubworkspaces.com'')]"

definition contact_centers :: kbval where
  "contact_centers = KDict
     [(''koramangala'', KDict [(''phone'', KStr ''080-4111-2222''), (''manager'', KStr ''Rajesh'')]),
      (''whitefield'', KDict [(''phone'', KStr ''080-4111-3333''), (''manager'', KStr ''Meera'')]),
      (''electronic_city'', KDict [(''phone'', KStr ''080-4111-4444''), (''manager'', KStr ''Arjun'')]),
      (''indiranagar'', KDict [(''phone'', KStr ''080-4111-5555''), (''manager'', KStr ''Sanjay'')]),
      (''mg_road'', KDict [(''phone'', KStr ''080-4111-6666''), (''manager'', KStr ''Priya'')])]"

definition contact_table :: kbval where
  "contact_table = KDict
    [(''general'', contact_general),
     (''sales'', KDict
       [(''phone'', KStr ''080-4111-2000''),
        (''email'', KStr ''sales@bizzhub.com''),
        (''person'', KStr ''Priya Patel''),
        (''hours'', KStr ''9 AM - 8 PM''),
        (''whatsapp'', KStr ''+91-9876543210'')]),
     (''support'', KDict
       [(''phone'', KStr ''080-4111-3000''),
        (''email'', KStr ''support@bizzhub.com''),
        (''hours'', KStr ''24/7''),
        (''emergency'', KStr ''+91-9000000000'')]),
     (''centers'', contact_centers)]"

definition locations_table :: kbval where
  "locations_table = KDict
    [(''koramangala'', KStr ''3rd Block, 80ft Road, Koramangala''),
     (''whitefield'', KStr ''ITPL Main Road, Whitefield''),
     (''electronic_city'', KStr ''Phase 1, Near Infosys, Electronic City''),
     (''indiranagar'', KStr ''100ft Road, Indiranagar''),
     (''mg_road'', KStr ''Brigade Road Cross, MG Road'')]"

definition facilities_table :: kbval where
  "facilities_table = KDict
    [(''internet'', KDict
       [(''description'', KStr ''High-speed dedicated fiber''),
        (''speed'', KStr ''100 Mbps''),
        (''included'', KBool True)]),
     (''parking'', KDict
       [(''description'', KStr ''Secure parking facilities''),
        (''availability'', KStr ''All centers''),
        (''cost'', KStr (rupee @ ''800 - '' @ rupee @ ''2,000/month''))]),
     (''meeting_rooms'', KDict
       [(''description'', KStr ''Fully equipped meeting spaces''),
        (''sizes'', KList [''4-seater'', ''8-seater'', ''12-seater'', ''Board room'']),
        (''cost'', KStr (rupee @ ''500 - '' @ rupee @ ''1,500/hour''))]),
     (''access_hours'', KDict
       [(''description'', KStr ''Center access hours''),
        (''co_working'', KStr ''8 AM - 10 PM''),
        (''dedicated_desk'', KStr ''24/7''),
        (''private_office'', KStr ''24/7'')]),
     (''additional'', KList
       [''Pantry with tea/coffee'',
        ''Printing & scanning (100 pages free)'',
        ''Mail handling services'',
        ''Reception support'',
        ''Community events'',
        ''IT support (basic included)''])]"

definition load_knowledge_base :: kbval where
  "load_knowledge_base = KDict
    [(''pricing'', pricing_table),
     (''contact'', contact_table),
     (''locations'', locations_table),
     (''facilities'', facilities_table)]"

record BizzHubKnowledgeBase =
  data :: kbval

definition kb_init :: BizzHubKnowledgeBase where
  "kb_init = \<lparr>data = load_knowledge_base\<rparr>"

text \<open>
  The four accessors. Every subscript is a lookup that can raise. \<open>the k\<close> stands
  for an argument \<open>k\<close> only below a test that found it among the keys of a
  dictionary, where it is a string.
\<close>

definition get_pricing ::
  "BizzHubKnowledgeBase \<Rightarrow> string option \<Rightarrow> string option \<Rightarrow> error + kbval" where
  "get_pricing self entity_key timeframe_key =
     and_then (getitem (data self) (Some ''pricing'')) (\<lambda>pricing.
     and_then (has_key pricing entity_key) (\<lambda>known.
       if known then
         and_then (getitem pricing entity_key) (\<lambda>item.
         and_then (if truthy timeframe_key then has_key item timeframe_key else Inr False) (\<lambda>wanted.
           if wanted then
             and_then (getitem item (Some ''description'')) (\<lambda>description.
             and_then (getitem item timeframe_key) (\<lambda>price.
             and_then (get_default item ''includes'' (KList [])) (\<lambda>includes.
             let filtered =
               dict_set (dict_set [(''description'', description)] (the timeframe_key) price)
                 ''includes'' includes
             in and_then (has_key item (Some ''variations'')) (\<lambda>has_variations.
               if has_variations then
                 and_then (getitem item (Some ''variations'')) (\<lambda>variations.
                 Inr (KDict (dict_set filtered ''variations'' variations)))
               else Inr (KDict filtered)))))
           else Inr item))
       else Inr (KDict [])))"

definition get_contact :: "BizzHubKnowledgeBase \<Rightarrow> string option \<Rightarrow> error + kbval" where
  "get_contact self entity_key =
     and_then (getitem (data self) (Some ''contact'')) (\<lambda>contact.
     and_then (has_key contact entity_key) (\<lambda>known.
       if known then getitem contact entity_key
       else getitem contact (Some ''general'')))"

definition get_location :: "BizzHubKnowledgeBase \<Rightarrow> string option \<Rightarrow> error + kbval" where
  "get_location self center =
     and_then (getitem (data self) (Some ''locations'')) (\<lambda>locations.
     and_then (if truthy center then has_key locations center else Inr False) (\<lambda>known.
       if known then
         and_then (getitem locations center) (\<lambda>address.
         and_then (getitem (data self) (Some ''contact'')) (\<lambda>contact.
         and_then (getitem contact (Some ''centers'')) (\<lambda>centers.
         and_then (getitem centers center) (\<lambda>center_contact.
         Inr (KDict [(the center,
                      KDict [(''address'', address), (''contact'', center_contact)])])))))
       else Inr locations))"

definition get_facility :: "BizzHubKnowledgeBase \<Rightarrow> string option \<Rightarrow> error + kbval" where
  "get_facility self facility =
     and_then (getitem (data self) (Some ''facilities'')) (\<lambda>facilities.
     and_then (if truthy facility then has_key facilities facility else Inr False) (\<lambda>known.
       if known then getitem facilities facility
       else Inr facilities))"


text \<open>
  Vocabulary for stating properties of the table: the items and keys of a dictionary,
  being a dictionary, and being a dictionary with a \<open>description\<close> entry.
\<close>

fun dict_items :: "kbval \<Rightarrow> (string \<times> kbval) list" where
  "dict_items (KDict d) = d"
| "dict_items v = []"

definition dict_keys :: "kbval \<Rightarrow> string list" where
  "dict_keys v = map fst (dict_items v)"

definition is_dict :: "kbval \<Rightarrow> bool" where
  "is_dict v = (v = KDict (dict_items v))"

definition described :: "kbval \<Rightarrow> bool" where
  "described item = (is_dict item \<and> map_of (dict_items item) ''description'' \<noteq> None)"


section \<open>Python values and the collaborators of llm\_manager.py\<close>

text \<open>
  The values that tool arguments, tool results and tool schemas range over: what
  \<open>json.loads\<close> produces, with string keys in dictionaries.
\<close>

datatype pyval =
    PNone | PBool bool | PInt int | PFloat real | PStr string
  | PList "pyval list" | PDict "(string \<times> pyval) list"

text \<open>\<open>v[k]\<close> for a string key, and \<open>v.get(k, default)\<close>.\<close>

fun py_getitem :: "pyval \<Rightarrow> string \<Rightarrow> error + pyval" where
  "py_getitem (PDict d) k = (case map_of d k of None \<Rightarrow> Inl KeyError | Some v \<Rightarrow> Inr v)"
| "py_getitem v k = Inl TypeError"

fun py_get :: "pyval \<Rightarrow> string \<Rightarrow> pyval \<Rightarrow> error + pyval" where
  "py_get (PDict d) k dflt = (case map_of d k of None \<Rightarrow> Inr dflt | Some v \<Rightarrow> Inr v)"
| "py_get v k dflt = Inl AttributeError"

text \<open>A list comprehension whose element expression can raise: the first exception ends it.\<close>

fun collect :: "('a \<Rightarrow> error + 'b) \<Rightarrow> 'a list \<Rightarrow> error + 'b list" where
  "collect f [] = Inr []"
| "collect f (x # xs) = and_then (f x) (\<lambda>y. and_then (collect f xs) (\<lambda>ys. Inr (y # ys)))"

text \<open>\<open>sep.join(items)\<close>: every item must be a \<open>str\<close>.\<close>

fun join :: "string \<Rightarrow> string list \<Rightarrow> string" where
  "join sep [] = []"
| "join sep [x] = x"
| "join sep (x # y # ys) = x @ sep @ join sep (y # ys)"

fun as_str :: "pyval \<Rightarrow> error + string" where
  "as_str (PStr s) = Inr s"
| "as_str v = Inl TypeError"

definition py_join :: "string \<Rightarrow> pyval list \<Rightarrow> error + string" where
  "py_join sep items = and_then (collect as_str items) (\<lambda>strs. Inr (join sep strs))"

text \<open>The messages and the reply of a chat completion, as far as the manager reads them.\<close>

datatype chat_msg = UserMsg string | FunctionMsg string string

record chat_request =
  chat_messages :: "chat_msg list"
  chat_functions :: "pyval list option"

record chat_message =
  message_content :: string
  function_call :: "(string \<times> string) option"

text \<open>
  Everything outside the module that its code calls: the environment, the two provider
  clients (\<open>generate_content(p).text\<close> and \<open>ChatCompletion.create(...).choices[0].message\<close>,
  either of which can raise), the currency converter, the clock, \<open>eval\<close>,
  \<open>json.loads\<close> and the formatting of a value inside an f-string or by \<open>str\<close>.
\<close>

record world =
  getenv :: "string \<Rightarrow> string option"
  generate_content :: "string \<Rightarrow> error + string"
  chat_completion :: "chat_request \<Rightarrow> error + chat_message"
  convert_currency :: "pyval \<Rightarrow> pyval \<Rightarrow> pyval \<Rightarrow> error + pyval"
  strftime :: string
  py_eval :: "string \<Rightarrow> error + pyval"
  json_loads :: "string \<Rightarrow> error + pyval"
  py_str :: "pyval \<Rightarrow> string"


section \<open>ToolCall (llm\_manager.py)\<close>

text \<open>
  The names bound at the top level of llm\_manager.py: its imports, classes, the global
  instance and the convenience function. A name used in a method body that is not local
  is looked up here (and then among the builtins, which hold no module); a miss raises
  \<open>NameError\<close>. The two statements \<open>import re\<close> of the file stand inside
  \<open>register_tool\<close> and \<open>_call_gemini\<close> and bind \<open>re\<close> in those bodies only.
\<close>

definition module_globals :: "string list" where
  "module_globals =
     [''os'', ''time'', ''genai'', ''Dict'', ''List'', ''Optional'', ''Any'', ''Callable'',
      ''Enum'', ''requests'', ''openai'', ''convert_currency'', ''LLMProvider'', ''ToolCall'',
      ''LLMManager'', ''llm_manager'', ''generate_with_fallback'']"

definition load_global :: "string \<Rightarrow> error + unit" where
  "load_global n = (if n \<in> set module_globals then Inr () else Inl NameError)"

text \<open>
  \<open>\s\<close> in a \<open>str\<close> pattern: the whitespace characters, which below 256 are
  \<open>0x09\<close>..\<open>0x0D\<close>, \<open>0x1C\<close>..\<open>0x20\<close>, \<open>0x85\<close> and \<open>0xA0\<close>.
\<close>

definition is_space :: "char \<Rightarrow> bool" where
  "is_space c = (c \<in> set [CHR 0x09, CHR 0x0A, CHR 0x0B, CHR 0x0C, CHR 0x0D, CHR 0x1C,
                           CHR 0x1D, CHR 0x1E, CHR 0x1F, CHR 0x20, CHR 0x85, CHR 0xA0])"

text \<open>
  \<open>re.match(r'^[0-9+\-*/().\s]+$', expression)\<close>: the expression is not empty and every
  character is a digit, an operator, a parenthesis, the point or whitespace.
\<close>

definition whitelisted :: "char \<Rightarrow> bool" where
  "whitelisted c = (c \<in> set ''0123456789+-*/().'' \<or> is_space c)"

definition re_match_whitelist :: "string \<Rightarrow> bool" where
  "re_match_whitelist expression = (expression \<noteq> [] \<and> list_all whitelisted expression)"

record ToolCall =
  name :: string
  arguments :: pyval

text \<open>
  The \<open>try\<close> block of the \<open>calculate\<close> branch and its bare \<open>except\<close>, which turns
  every exception of the block into the string \<open>Calculation error\<close>. The block starts by
  evaluating \<open>re.match\<close>, so by looking \<open>re\<close> up.
\<close>

definition calculate_try :: "world \<Rightarrow> pyval \<Rightarrow> error + pyval" where
  "calculate_try w expression =
     and_then (load_global ''re'') (\<lambda>_.
     and_then (as_str expression) (\<lambda>s.
       if re_match_whitelist s then py_eval w s
       else Inr (PStr ''Invalid expression'')))"

definition calculate :: "world \<Rightarrow> pyval \<Rightarrow> pyval" where
  "calculate w expression =
     (case calculate_try w expression of
        Inl e \<Rightarrow> PStr ''Calculation error''
      | Inr v \<Rightarrow> v)"

definition execute :: "world \<Rightarrow> ToolCall \<Rightarrow> error + pyval" where
  "execute w self =
     (if name self = ''currency_converter'' then
        and_then (py_get (arguments self) ''amount'' (PInt 0)) (\<lambda>amount.
        and_then (py_get (arguments self) ''from_currency'' (PStr ''USD'')) (\<lambda>from_currency.
        and_then (py_get (arguments self) ''to_currency'' (PStr ''INR'')) (\<lambda>to_currency.
        convert_currency w amount from_currency to_currency)))
      else if name self = ''get_current_time'' then Inr (PStr (strftime w))
      else if name self = ''calculate'' then
        and_then (py_get (arguments self) ''expression'' (PStr '''')) (\<lambda>expression.
        Inr (calculate w expression))
      else Inr (PStr (''Unknown tool: '' @ name self)))"


section \<open>LLMManager (llm\_manager.py)\<close>

datatype LLMProvider = GEMINI | OPENAI | LOCAL

fun provider_value :: "LLMProvider \<Rightarrow> string" where
  "provider_value GEMINI = ''gemini''"
| "provider_value OPENAI = ''openai''"
| "provider_value LOCAL = ''local''"

text \<open>
  The manager: the keys of \<open>self.providers\<close> in insertion order (the clients behind them
  are in the world), the active provider, and the registry, which maps a tool name to its
  callable and its schema.
\<close>

record 'f tool =
  tool_function :: 'f
  tool_schema :: pyval

record 'f LLMManager =
  providers :: "LLMProvider list"
  active_provider :: "LLMProvider option"
  tool_registry :: "(string \<times> 'f tool) list"

text \<open>The dictionary a provider call returns.\<close>

record response =
  content :: string
  tool_calls :: "pyval list"
  provider :: string

definition setup_providers :: "world \<Rightarrow> 'f LLMManager \<Rightarrow> 'f LLMManager" where
  "setup_providers w self =
     (let self1 =
            (if truthy (getenv w ''GOOGLE_API_KEY'')
             then self\<lparr>providers := providers self @ [GEMINI], active_provider := Some GEMINI\<rparr>
             else self);
          self2 =
            (if truthy (getenv w ''OPENAI_API_KEY'')
             then (let self' = self1\<lparr>providers := providers self1 @ [OPENAI]\<rparr>
                   in if active_provider self' = None
                      then self'\<lparr>active_provider := Some OPENAI\<rparr> else self')
             else self1)
      in self2)"

text \<open>
  \<open>register_tool(name, schema)\<close> builds the decorator \<open>wrapper\<close> and returns it; its body
  does nothing else to the manager. The registry is written by \<open>wrapper\<close>, when the
  decorator is applied to a callable.
\<close>

definition wrapper :: "string \<Rightarrow> pyval \<Rightarrow> 'f \<Rightarrow> 'f LLMManager \<Rightarrow> 'f LLMManager \<times> 'f" where
  "wrapper tool_name schema func self =
     (self\<lparr>tool_registry :=
         dict_set (tool_registry self) tool_name \<lparr>tool_function = func, tool_schema = schema\<rparr>\<rparr>,
      func)"

definition register_tool ::
  "'f LLMManager \<Rightarrow> string \<Rightarrow> pyval \<Rightarrow>
     'f LLMManager \<times> ('f \<Rightarrow> 'f LLMManager \<Rightarrow> 'f LLMManager \<times> 'f)" where
  "register_tool self tool_name schema = (self, wrapper tool_name schema)"

definition currency_converter_schema :: pyval where
  "currency_converter_schema = PDict
     [(''description'', PStr ''Convert currency amounts between different currencies''),
      (''parameters'', PDict
        [(''type'', PStr ''object''),
         (''properties'', PDict
           [(''amount'', PDict [(''type'', PStr ''number''),
                                (''description'', PStr ''Amount to convert'')]),
            (''from_currency'', PDict [(''type'', PStr ''string''),
                                (''description'', PStr ''Source currency code (e.g., USD)'')]),
            (''to_currency'', PDict [(''type'', PStr ''string''),
                                (''description'', PStr ''Target currency code (e.g., EUR)'')])]),
         (''required'', PList [PStr ''amount'', PStr ''from_currency'', PStr ''to_currency''])])]"

definition get_current_time_schema :: pyval where
  "get_current_time_schema = PDict
     [(''description'', PStr ''Get the current time and date''),
      (''parameters'', PDict [(''type'', PStr ''object''), (''properties'', PDict [])])]"

definition calculate_schema :: pyval where
  "calculate_schema = PDict
     [(''description'', PStr ''Perform mathematical calculations''),
      (''parameters'', PDict
        [(''type'', PStr ''object''),
         (''properties'', PDict
           [(''expression'', PDict [(''type'', PStr ''string''),
                                (''description'', PStr ''Mathematical expression to evaluate'')])]),
         (''required'', PList [PStr ''expression''])])]"

text \<open>The three calls of \<open>_register_default_tools\<close>; each returned decorator is dropped.\<close>

definition register_default_tools :: "'f LLMManager \<Rightarrow> 'f LLMManager" where
  "register_default_tools self =
     (let (self1, _) = register_tool self ''currency_converter'' currency_converter_schema;
          (self2, _) = register_tool self1 ''get_current_time'' get_current_time_schema;
          (self3, _) = register_tool self2 ''calculate'' calculate_schema
      in self3)"

definition LLMManager_init :: "world \<Rightarrow> 'f LLMManager" where
  "LLMManager_init w =
     register_default_tools
       (setup_providers w \<lparr>providers = [], active_provider = None, tool_registry = []\<rparr>)"

definition tool_listing :: "string \<times> 'f tool \<Rightarrow> error + pyval" where
  "tool_listing item =
     and_then (py_getitem (tool_schema (snd item)) ''description'') (\<lambda>description.
     and_then (py_getitem (tool_schema (snd item)) ''parameters'') (\<lambda>parameters.
     Inr (PDict [(''type'', PStr ''function''),
                 (''function'', PDict [(''name'', PStr (fst item)),
                                       (''description'', description),
                                       (''parameters'', parameters)])])))"

definition get_available_tools :: "'f LLMManager \<Rightarrow> error + pyval list" where
  "get_available_tools self = collect tool_listing (tool_registry self)"

text \<open>
  \<open>re.search\<close> for the tool-call pattern
  \<^verbatim>\<open>\{"tool":\s*"([^"]+)"(?:,\s*"arguments":\s*(\{[^}]+\}))?\}\<close>.
  Every repetition in it is followed by a character it cannot itself match, so a match
  from a given position is found without backtracking into a repetition; only the
  optional group is tried and, failing, skipped. The result is group 1 and group 2.
\<close>

fun strip_prefix :: "string \<Rightarrow> string \<Rightarrow> string option" where
  "strip_prefix [] s = Some s"
| "strip_prefix (p # ps) [] = None"
| "strip_prefix (p # ps) (c # cs) = (if p = c then strip_prefix ps cs else None)"

definition match_arguments_group :: "string \<Rightarrow> (string \<times> string) option" where
  "match_arguments_group s =
     (case strip_prefix '','' s of None \<Rightarrow> None | Some s1 \<Rightarrow>
      case strip_prefix ''\"arguments\":'' (dropWhile is_space s1) of None \<Rightarrow> None | Some s2 \<Rightarrow>
      case strip_prefix ''{'' (dropWhile is_space s2) of None \<Rightarrow> None | Some s3 \<Rightarrow>
        let body = takeWhile (\<lambda>c. c \<noteq> CHR ''}'') s3;
            s4 = dropWhile (\<lambda>c. c \<noteq> CHR ''}'') s3
        in if body = [] then None
           else case strip_prefix ''}'' s4 of None \<Rightarrow> None
                | Some s5 \<Rightarrow> Some (''{'' @ body @ ''}'', s5))"

definition match_tool_call :: "string \<Rightarrow> (string \<times> string option) option" where
  "match_tool_call s =
     (case strip_prefix ''{\"tool\":'' s of None \<Rightarrow> None | Some s1 \<Rightarrow>
      case strip_prefix ''\"'' (dropWhile is_space s1) of None \<Rightarrow> None | Some s2 \<Rightarrow>
        let tool_name = takeWhile (\<lambda>c. c \<noteq> CHR 0x22) s2;
            s3 = dropWhile (\<lambda>c. c \<noteq> CHR 0x22) s2
        in if tool_name = [] then None
           else case strip_prefix ''\"'' s3 of None \<Rightarrow> None
                | Some s4 \<Rightarrow>
                   (case match_arguments_group s4 of
                      Some (arguments_str, s5) \<Rightarrow>
                        if starts_with s5 ''}'' then Some (tool_name, Some arguments_str)
                        else if starts_with s4 ''}'' then Some (tool_name, None)
                        else None
                    | None \<Rightarrow>
                        if starts_with s4 ''}'' then Some (tool_name, None) else None))"

fun re_search_tool_call :: "string \<Rightarrow> (string \<times> string option) option" where
  "re_search_tool_call [] = match_tool_call []"
| "re_search_tool_call (c # cs) =
     (case match_tool_call (c # cs) of
        Some m \<Rightarrow> Some m
      | None \<Rightarrow> re_search_tool_call cs)"

text \<open>\<open>except Exception as e: print(...); return None\<close> around the body of a provider call.\<close>

definition except_Exception :: "error + response option \<Rightarrow> error + response option" where
  "except_Exception body =
     (case body of
        Inl e \<Rightarrow> if is_Exception e then Inr None else Inl e
      | Inr r \<Rightarrow> Inr r)"

definition tool_call_entry :: "string \<Rightarrow> pyval \<Rightarrow> pyval \<Rightarrow> pyval" where
  "tool_call_entry tool_name args tool_result =
     PDict [(''name'', PStr tool_name), (''arguments'', args), (''result'', tool_result)]"

definition tool_function_name :: "pyval \<Rightarrow> error + pyval" where
  "tool_function_name tool_item =
     and_then (py_getitem tool_item ''function'') (\<lambda>f. py_getitem f ''name'')"

text \<open>
  \<open>_call_gemini\<close>. With a non-empty \<open>tools\<close> the only \<open>return\<close> of a dictionary is
  inside \<open>if tool_match:\<close> and \<open>if arguments_str:\<close>; every other path through that
  branch reaches the end of the function, which returns \<open>None\<close>. \<open>the tools\<close> and
  \<open>the arguments_str\<close> stand below the tests that found them to be a non-empty list
  and a non-empty string.
\<close>

definition call_gemini_try ::
  "world \<Rightarrow> 'f LLMManager \<Rightarrow> string \<Rightarrow> pyval list option \<Rightarrow> error + response option" where
  "call_gemini_try w self prompt tools =
     and_then (if GEMINI \<in> set (providers self) then Inr () else Inl KeyError) (\<lambda>model.
       if tools \<noteq> None \<and> tools \<noteq> Some [] then
         and_then (collect tool_function_name (the tools)) (\<lambda>tool_names.
         and_then (py_join '', '' tool_names) (\<lambda>joined.
         let enhanced_prompt =
               prompt @ [CHR 0x0A, CHR 0x0A] @ ''Available tools: '' @ joined @ ''. '' @
               ''If you need to use any of these tools, respond with the tool name '' @
               ''and arguments in JSON format: {\"tool\": \"tool_name\", \"arguments\": {...}}''
         in
         and_then (generate_content w enhanced_prompt) (\<lambda>response_text.
           case re_search_tool_call response_text of
             None \<Rightarrow> Inr None
           | Some (tool_name, arguments_str) \<Rightarrow>
               if truthy arguments_str then
                 and_then (json_loads w (the arguments_str)) (\<lambda>args.
                 and_then (execute w \<lparr>name = tool_name, arguments = args\<rparr>) (\<lambda>tool_result.
                 let followup_prompt =
                       prompt @ [CHR 0x0A, CHR 0x0A] @ ''Tool '' @ [CHR 0x27] @ tool_name @ [CHR 0x27] @
                       '' was called with arguments '' @ py_str w args @
                       '' and returned: '' @ py_str w tool_result @ ''. '' @
                       ''Provide the final answer based on this information.''
                 in
                 and_then (generate_content w followup_prompt) (\<lambda>followup_text.
                 Inr (Some \<lparr>content = followup_text,
                            tool_calls = [tool_call_entry tool_name args tool_result],
                            provider = provider_value GEMINI\<rparr>))))
               else Inr None)))
       else
         and_then (generate_content w prompt) (\<lambda>response_text.
         Inr (Some \<lparr>content = response_text, tool_calls = [],
                    provider = provider_value GEMINI\<rparr>)))"

definition call_gemini ::
  "world \<Rightarrow> 'f LLMManager \<Rightarrow> string \<Rightarrow> pyval list option \<Rightarrow> error + response option" where
  "call_gemini w self prompt tools = except_Exception (call_gemini_try w self prompt tools)"

definition call_openai_try ::
  "world \<Rightarrow> 'f LLMManager \<Rightarrow> string \<Rightarrow> pyval list option \<Rightarrow> error + response option" where
  "call_openai_try w self prompt tools =
     (if tools \<noteq> None \<and> tools \<noteq> Some [] then
        and_then (get_available_tools self) (\<lambda>available.
        and_then (chat_completion w \<lparr>chat_messages = [UserMsg prompt], chat_functions = Some available\<rparr>)
          (\<lambda>message.
           case function_call message of
             Some (function_name, function_arguments) \<Rightarrow>
               and_then (py_eval w function_arguments) (\<lambda>function_args.
               and_then (execute w \<lparr>name = function_name, arguments = function_args\<rparr>)
                 (\<lambda>tool_result.
               and_then (chat_completion w
                           \<lparr>chat_messages = [UserMsg prompt,
                                         FunctionMsg function_name (py_str w tool_result)],
                            chat_functions = None\<rparr>) (\<lambda>followup.
               Inr (Some \<lparr>content = message_content followup,
                          tool_calls = [tool_call_entry function_name function_args tool_result],
                          provider = provider_value OPENAI\<rparr>))))
           | None \<Rightarrow>
               Inr (Some \<lparr>content = message_content message, tool_calls = [],
                          provider = provider_value OPENAI\<rparr>)))
      else
        and_then (chat_completion w \<lparr>chat_messages = [UserMsg prompt], chat_functions = None\<rparr>)
          (\<lambda>message.
           Inr (Some \<lparr>content = message_content message, tool_calls = [],
                      provider = provider_value OPENAI\<rparr>)))"

definition call_openai ::
  "world \<Rightarrow> 'f LLMManager \<Rightarrow> string \<Rightarrow> pyval list option \<Rightarrow> error + response option" where
  "call_openai w self prompt tools = except_Exception (call_openai_try w self prompt tools)"

text \<open>
  The local variable \<open>result\<close> of \<open>generate_response\<close>: unbound until a provider call
  has been assigned to it.
\<close>

datatype local_var = Unbound | Bound "response option"

text \<open>
  The loop \<open>for provider in LLMProvider\<close> over the providers still to visit. It returns
  \<open>Some r\<close> when the loop body returns \<open>r\<close> and \<open>None\<close> when the loop runs out. For a
  configured provider other than Gemini and OpenAI no call is made and \<open>if result:\<close>
  reads whatever \<open>result\<close> holds.
\<close>

fun fallback_loop ::
  "world \<Rightarrow> 'f LLMManager \<Rightarrow> string \<Rightarrow> pyval list option \<Rightarrow> LLMProvider list \<Rightarrow> local_var
     \<Rightarrow> error + response option" where
  "fallback_loop w self prompt tools [] result = Inr None"
| "fallback_loop w self prompt tools (p # ps) result =
     (if Some p \<noteq> active_provider self \<and> p \<in> set (providers self) then
        and_then
          (if p = GEMINI then and_then (call_gemini w self prompt tools) (\<lambda>r. Inr (Bound r))
           else if p = OPENAI then and_then (call_openai w self prompt tools) (\<lambda>r. Inr (Bound r))
           else Inr result)
          (\<lambda>result'.
             case result' of
               Unbound \<Rightarrow> Inl UnboundLocalError
             | Bound (Some r) \<Rightarrow> Inr (Some r)
             | Bound None \<Rightarrow> fallback_loop w self prompt tools ps result')
      else fallback_loop w self prompt tools ps result)"

definition fallback_response :: "string \<Rightarrow> response" where
  "fallback_response prompt =
     \<lparr>content = ''I'm sorry, but I couldn't process your request. The input was: '' @
                 take 100 prompt @ ''...'',
      tool_calls = [],
      provider = ''fallback''\<rparr>"

text \<open>
  The two \<open>if\<close> statements for the active provider: \<open>Inl\<close> an exception, \<open>Inr (Inl r)\<close>
  a returned result, \<open>Inr (Inr v)\<close> falling through with \<open>result\<close> in state \<open>v\<close>.
\<close>

definition try_active ::
  "world \<Rightarrow> 'f LLMManager \<Rightarrow> string \<Rightarrow> pyval list option \<Rightarrow> LLMProvider
     \<Rightarrow> (world \<Rightarrow> 'f LLMManager \<Rightarrow> string \<Rightarrow> pyval list option \<Rightarrow> error + response option)
     \<Rightarrow> local_var \<Rightarrow> error + (response + local_var)" where
  "try_active w self prompt tools p call result =
     (if active_provider self = Some p \<and> p \<in> set (providers self) then
        and_then (call w self prompt tools) (\<lambda>r.
          case r of Some res \<Rightarrow> Inr (Inl res) | None \<Rightarrow> Inr (Inr (Bound None)))
      else Inr (Inr result))"

definition generate_response ::
  "world \<Rightarrow> 'f LLMManager \<Rightarrow> string \<Rightarrow> bool \<Rightarrow> error + response" where
  "generate_response w self prompt use_tools =
     and_then (if use_tools then and_then (get_available_tools self) (\<lambda>ts. Inr (Some ts))
               else Inr None) (\<lambda>tools.
     and_then (try_active w self prompt tools GEMINI call_gemini Unbound) (\<lambda>after_gemini.
       case after_gemini of
         Inl res \<Rightarrow> Inr res
       | Inr result1 \<Rightarrow>
     and_then (try_active w self prompt tools OPENAI call_openai result1) (\<lambda>after_openai.
       case after_openai of
         Inl res \<Rightarrow> Inr res
       | Inr result2 \<Rightarrow>
     and_then (fallback_loop w self prompt tools [GEMINI, OPENAI, LOCAL] result2) (\<lambda>looped.
       case looped of
         Some res \<Rightarrow> Inr res
       | None \<Rightarrow> Inr (fallback_response prompt)))))"

text \<open>
  A small world for running the manager on concrete inputs: the environment is an
  association list, Gemini gives one answer to every prompt and OpenAI one message to every
  request; the other collaborators are not reached on the paths it is used for.
\<close>

definition sample_world ::
  "(string \<times> string) list \<Rightarrow> error + string \<Rightarrow> error + chat_message \<Rightarrow> world" where
  "sample_world env gemini_answer openai_answer =
     \<lparr>getenv = map_of env,
      generate_content = (\<lambda>p. gemini_answer),
      chat_completion = (\<lambda>request. openai_answer),
      convert_currency = (\<lambda>amount from_currency to_currency. Inl ValueError),
      strftime = ''2024-01-01 00:00:00'',
      py_eval = (\<lambda>s. Inl ValueError),
      json_loads = (\<lambda>s. Inl ValueError),
      py_str = (\<lambda>v. '''')\<rparr>"

section \<open>FAQRAGSystem (rag\_system.py)\<close>

record FAQ =
  question :: string
  answer :: string
  category :: string
  embeddings :: "real list option"

text \<open>
  What the retrieval code calls in scikit-learn, SciPy and NumPy, none of it code of this
  repository: fitting the vectorizer on the questions (which gives the new state of the
  vectorizer and the matrix of question vectors, or raises), transforming a list of
  queries with a fitted vectorizer, the cosine similarities of a matrix and the index (which
  is handed over as it is, \<open>None\<close> included), and \<open>argsort\<close>. A vector is a list of
  numbers, a matrix a list of rows, and a floating-point number is the real number it
  stands for. \<open>'v\<close> is the state of the vectorizer.
\<close>

record 'v sklearn =
  fit_transform :: "'v \<Rightarrow> string list \<Rightarrow> error + ('v \<times> real list list)"
  transform :: "'v \<Rightarrow> string list \<Rightarrow> error + real list list"
  cosine_similarity :: "real list list \<Rightarrow> real list list option \<Rightarrow> error + real list list"
  argsort :: "real list \<Rightarrow> nat list"

record 'v FAQRAGSystem =
  faqs :: "FAQ list"
  vectorizer :: 'v
  faq_vectors :: "real list list option"

text \<open>
  The two thresholds are the literals \<open>0.1\<close> and \<open>0.3\<close> of the source, that is the
  doubles nearest to them. No double lies between \<open>0.3\<close> and the double written \<open>0.3\<close>,
  so a similarity exceeds the one exactly when it exceeds the other.
\<close>

definition display_threshold :: real where
  "display_threshold = 3602879701896397 / 2 ^ 55"

definition accept_threshold :: real where
  "accept_threshold = 5404319552844595 / 2 ^ 54"

definition default_faqs :: "FAQ list" where
  "default_faqs =
    [\<lparr>question = ''How do I create an invoice?'',
      answer = ''You can create an invoice by providing product details like quantity and price. '' @
               ''For example: '2x T-shirts @ 500' creates an invoice with 2 T-shirts at Rs. 500 each.'',
      category = ''billing'', embeddings = None\<rparr>,
     \<lparr>question = ''What information do I need for an invoice?'',
      answer = ''You need at least one product item, customer name, and customer email. '' @
               ''Additional details like GST number, shipping fee, and discount codes can be added.'',
      category = ''billing'', embeddings = None\<rparr>,
     \<lparr>question = ''How do I add items to my invoice?'',
      answer = ''You can add items by mentioning quantity, name, and price. '' @
               ''Examples: '3 shirts @ 499', '1 laptop 12999', '2 books at 299 each'.'',
      category = ''billing'', embeddings = None\<rparr>,
     \<lparr>question = ''Can I update my invoice after creation?'',
      answer = ''Yes, you can continue adding items or updating details in the same conversation. '' @
               ''The system remembers your invoice draft until it's finalized.'',
      category = ''billing'', embeddings = None\<rparr>,
     \<lparr>question = ''How do I download my invoice as PDF?'',
      answer = ''Once your invoice is generated, you'll see a download link in the chat interface. '' @
               ''The PDF is automatically created when your invoice is finalized.'',
      category = ''pdf'', embeddings = None\<rparr>,
     \<lparr>question = ''What is GST and how is it calculated?'',
      answer = ''GST (Goods and Services Tax) is calculated as a percentage of the subtotal. '' @
               ''By default, it's set to 18%, but you can specify a different rate.'',
      category = ''tax'', embeddings = None\<rparr>,
     \<lparr>question = ''Can I apply discounts to my invoice?'',
      answer = ''Yes, you can apply discounts by mentioning a discount code or amount. '' @
               ''Examples: 'Apply 10% discount', 'Use code SAVE10', 'Discount of 500'.'',
      category = ''billing'', embeddings = None\<rparr>,
     \<lparr>question = ''How do I include shipping charges?'',
      answer = ''Shipping charges are automatically added to your invoice. '' @
               ''You can specify shipping fees like: 'Shipping: 100' or 'Delivery charge: 50'.'',
      category = ''billing'', embeddings = None\<rparr>,
     \<lparr>question = ''What payment methods do you accept?'',
      answer = ''This system generates invoices for your records. '' @
               ''Actual payment methods depend on the merchant you're purchasing from.'',
      category = ''payment'', embeddings = None\<rparr>,
     \<lparr>question = ''How do I cancel my invoice?'',
      answer = ''Invoices are generated only when complete. '' @
               ''If you want to start fresh, just begin a new conversation or say 'reset'.'',
      category = ''billing'', embeddings = None\<rparr>,
     \<lparr>question = ''Can I send the invoice to someone else?'',
      answer = ''Yes, once generated, you can download the PDF and share it. '' @
               ''The system also stores invoices by ID for future reference.'',
      category = ''pdf'', embeddings = None\<rparr>,
     \<lparr>question = ''How long are my invoices stored?'',
      answer = ''Invoices are stored in our secure database. '' @
               ''You can retrieve them using the invoice ID provided after generation.'',
      category = ''storage'', embeddings = None\<rparr>]"

text \<open>
  \<open>_build_index\<close>: with no FAQ the index is \<open>None\<close>; otherwise the vectorizer is fitted
  on all the questions, a \<open>ValueError\<close> of the fit leaves the index \<open>None\<close> and any
  other exception goes to the caller.
\<close>

definition build_index :: "'v sklearn \<Rightarrow> 'v FAQRAGSystem \<Rightarrow> error + 'v FAQRAGSystem" where
  "build_index lib self =
     (if faqs self = [] then Inr (self\<lparr>faq_vectors := None\<rparr>)
      else case fit_transform lib (vectorizer self) (map question (faqs self)) of
             Inr (fitted, vectors) \<Rightarrow> Inr (self\<lparr>vectorizer := fitted, faq_vectors := Some vectors\<rparr>)
           | Inl e \<Rightarrow> if e = ValueError then Inr (self\<lparr>faq_vectors := None\<rparr>) else Inl e)"

definition FAQRAGSystem_init :: "'v sklearn \<Rightarrow> 'v \<Rightarrow> error + 'v FAQRAGSystem" where
  "FAQRAGSystem_init lib unfitted =
     build_index lib \<lparr>faqs = default_faqs, vectorizer = unfitted, faq_vectors = None\<rparr>"

definition add_faq ::
  "'v sklearn \<Rightarrow> 'v FAQRAGSystem \<Rightarrow> string \<Rightarrow> string \<Rightarrow> string \<Rightarrow> error + 'v FAQRAGSystem" where
  "add_faq lib self q a c =
     build_index lib
       (self\<lparr>faqs := faqs self @ [\<lparr>question = q, answer = a, category = c, embeddings = None\<rparr>]\<rparr>)"

text \<open>\<open>s.strip()\<close>, \<open>xs[i]\<close> for an index that is not negative, and \<open>xs[-k:]\<close>.\<close>

definition strip :: "string \<Rightarrow> string" where
  "strip s = rev (dropWhile is_space (rev (dropWhile is_space s)))"

definition item_at :: "'a list \<Rightarrow> nat \<Rightarrow> error + 'a" where
  "item_at xs i = (if i < length xs then Inr (xs ! i) else Inl IndexError)"

definition last_k :: "nat \<Rightarrow> 'a list \<Rightarrow> 'a list" where
  "last_k k xs = (if k = 0 then xs else drop (length xs - k) xs)"

text \<open>The loop over \<open>top_indices\<close> that collects the entries above the display threshold.\<close>

fun similar_loop :: "FAQ list \<Rightarrow> real list \<Rightarrow> nat list \<Rightarrow> error + (FAQ \<times> real) list" where
  "similar_loop fs similarities [] = Inr []"
| "similar_loop fs similarities (idx # rest) =
     and_then (item_at similarities idx) (\<lambda>s.
       if s > display_threshold then
         and_then (item_at fs idx) (\<lambda>faq.
         and_then (similar_loop fs similarities rest) (\<lambda>results. Inr ((faq, s) # results)))
       else similar_loop fs similarities rest)"

text \<open>
  \<open>self.faq_vectors.any()\<close>. The index is \<open>None\<close> or what \<open>fit_transform\<close> returned,
  a SciPy sparse matrix. That type has no method \<open>any\<close> (a NumPy array has one), and
  neither has \<open>None\<close>: looking the attribute up raises \<open>AttributeError\<close> on both, before
  anything is called.
\<close>

definition index_any :: "real list list option \<Rightarrow> error + bool" where
  "index_any vectors =
     (case vectors of
        None \<Rightarrow> Inl AttributeError
      | Some sparse_matrix \<Rightarrow> Inl AttributeError)"

text \<open>The statements of \<open>_find_similar_faqs\<close> that follow its guard.\<close>

definition rank_faqs ::
  "'v sklearn \<Rightarrow> 'v FAQRAGSystem \<Rightarrow> string \<Rightarrow> nat \<Rightarrow> error + (FAQ \<times> real) list" where
  "rank_faqs lib self query top_k =
     and_then (transform lib (vectorizer self) [query]) (\<lambda>query_vector.
     and_then (cosine_similarity lib query_vector (faq_vectors self)) (\<lambda>sim_matrix.
     let similarities = concat sim_matrix;
         top_indices = rev (last_k top_k (argsort lib similarities))
     in similar_loop (faqs self) similarities top_indices))"

text \<open>
  \<open>_find_similar_faqs\<close>. The guard is \<open>not self.faq_vectors.any() or not query.strip()\<close>:
  the index is asked first, the query second.
\<close>

definition find_similar_faqs ::
  "'v sklearn \<Rightarrow> 'v FAQRAGSystem \<Rightarrow> string \<Rightarrow> nat \<Rightarrow> error + (FAQ \<times> real) list" where
  "find_similar_faqs lib self query top_k =
     and_then (index_any (faq_vectors self)) (\<lambda>nonzero.
       if \<not> nonzero \<or> strip query = [] then Inr []
       else rank_faqs lib self query top_k)"

text \<open>The \<open>if\<close> of \<open>get_answer\<close> on the candidates it was given, and \<open>get_answer\<close>.\<close>

definition accept_best :: "(FAQ \<times> real) list \<Rightarrow> string option \<times> bool" where
  "accept_best similar_faqs =
     (case similar_faqs of
        [] \<Rightarrow> (None, False)
      | (best_match, confidence) # _ \<Rightarrow>
          if confidence > accept_threshold then (Some (answer best_match), True)
          else (None, False))"

definition get_answer ::
  "'v sklearn \<Rightarrow> 'v FAQRAGSystem \<Rightarrow> string \<Rightarrow> error + (string option \<times> bool)" where
  "get_answer lib self query =
     and_then (find_similar_faqs lib self query 2) (\<lambda>similar_faqs.
       Inr (accept_best similar_faqs))"

text \<open>
  A small library for running the retrieval on concrete inputs: it reports the given
  similarities for every query, gives every question the vector \<open>[1]\<close>, and sorts indices
  by insertion, as \<open>argsort\<close> does on a short array.
\<close>

definition sample_argsort :: "real list \<Rightarrow> nat list" where
  "sample_argsort xs = map snd (sort_key fst (zip xs [0..<length xs]))"

definition sample_sklearn :: "real list \<Rightarrow> unit sklearn" where
  "sample_sklearn similarities =
     \<lparr>fit_transform = (\<lambda>v docs. Inr ((), map (\<lambda>d. [1]) docs)),
      transform = (\<lambda>v queries. Inr (map (\<lambda>q. [1]) queries)),
      cosine_similarity = (\<lambda>x y. Inr [similarities]),
      argsort = sample_argsort\<rparr>"


section \<open>Properties of IntentParser\<close>

lemma first_entity_None:
  "first_entity table q = None \<longleftrightarrow>
     (\<forall>row \<in> set table. \<not> any_in (snd row) q)"
  by (induction table q rule: first_entity.induct) auto

text \<open>
  C6. \<open>parse\<close> is an ordered cascade over the lower-cased question: a pricing keyword
  gives category pricing; failing that a contact keyword gives contact; failing that a
  location keyword gives location; failing that a facility keyword gives facility; with no
  keyword at all the result is category general, not specific, with no entity and no
  timeframe. A question with a pricing keyword in which no phrase of the pricing pattern
  table occurs is classified pricing, not specific, with entity \<open>None\<close>.
\<close>

theorem parse_cascade:
  "(any_in pricing_keywords (lower q) \<longrightarrow> type (parse q) = PRICING) \<and>
   (\<not> any_in pricing_keywords (lower q) \<and> any_in contact_keywords (lower q)
      \<longrightarrow> type (parse q) = CONTACT) \<and>
   (\<not> any_in pricing_keywords (lower q) \<and> \<not> any_in contact_keywords (lower q) \<and>
    any_in location_keywords (lower q)
      \<longrightarrow> type (parse q) = LOCATION) \<and>
   (\<not> any_in pricing_keywords (lower q) \<and> \<not> any_in contact_keywords (lower q) \<and>
    \<not> any_in location_keywords (lower q) \<and> any_in facility_keywords (lower q)
      \<longrightarrow> type (parse q) = FACILITY) \<and>
   (\<not> any_in pricing_keywords (lower q) \<and> \<not> any_in contact_keywords (lower q) \<and>
    \<not> any_in location_keywords (lower q) \<and> \<not> any_in facility_keywords (lower q)
      \<longrightarrow> parse q = \<lparr>type = GENERAL, is_specific = False, entity = None, timeframe = None\<rparr>) \<and>
   (any_in pricing_keywords (lower q) \<and>
    (\<forall>row \<in> set pricing_patterns. \<not> any_in (snd row) (lower q))
      \<longrightarrow> type (parse q) = PRICING \<and> is_specific (parse q) = False \<and> entity (parse q) = None)"
proof -
  have pricing: "type (parse_pricing_intent s) = PRICING" for s
    by (simp add: parse_pricing_intent_def Let_def)
  have contact: "type (parse_contact_intent s) = CONTACT" for s
    by (simp add: parse_contact_intent_def Let_def)
  have location: "type (parse_location_intent s) = LOCATION" for s
    by (simp add: parse_location_intent_def Let_def)
  have facility: "type (parse_facility_intent s) = FACILITY" for s
    by (simp add: parse_facility_intent_def Let_def)
  have unspecific:
    "is_specific (parse_pricing_intent s) = False \<and> entity (parse_pricing_intent s) = None"
    if "\<forall>row \<in> set pricing_patterns. \<not> any_in (snd row) s" for s
  proof -
    from that have "first_entity pricing_patterns s = None"
      by (simp only: first_entity_None)
    then show ?thesis
      by (simp add: parse_pricing_intent_def Let_def)
  qed
  show ?thesis
    unfolding parse_def Let_def
    using pricing contact location facility unspecific by simp
qed

theorem parse_cascade_witness:
  "(any_in pricing_keywords (lower ''What is the PRICE?'') \<and>
    list_all (\<lambda>row. \<not> any_in (snd row) (lower ''What is the PRICE?'')) pricing_patterns \<and>
    type (parse ''What is the PRICE?'') = PRICING \<and>
    is_specific (parse ''What is the PRICE?'') = False \<and>
    entity (parse ''What is the PRICE?'') = None) \<and>
   (\<not> any_in pricing_keywords (lower ''Please CALL me'') \<and>
    any_in contact_keywords (lower ''Please CALL me'') \<and>
    type (parse ''Please CALL me'') = CONTACT) \<and>
   (\<not> any_in pricing_keywords (lower ''Which branch?'') \<and>
    \<not> any_in contact_keywords (lower ''Which branch?'') \<and>
    any_in location_keywords (lower ''Which branch?'') \<and>
    type (parse ''Which branch?'') = LOCATION) \<and>
   (\<not> any_in pricing_keywords (lower ''Do you have WiFi?'') \<and>
    \<not> any_in contact_keywords (lower ''Do you have WiFi?'') \<and>
    \<not> any_in location_keywords (lower ''Do you have WiFi?'') \<and>
    any_in facility_keywords (lower ''Do you have WiFi?'') \<and>
    type (parse ''Do you have WiFi?'') = FACILITY) \<and>
   (\<not> any_in pricing_keywords (lower ''Hello'') \<and>
    \<not> any_in contact_keywords (lower ''Hello'') \<and>
    \<not> any_in location_keywords (lower ''Hello'') \<and>
    \<not> any_in facility_keywords (lower ''Hello'') \<and>
    parse ''Hello'' = \<lparr>type = GENERAL, is_specific = False, entity = None, timeframe = None\<rparr>)"
proof -
  have p1: "any_in pricing_keywords (lower ''What is the PRICE?'')"
    by code_simp
  have p2': "list_all (\<lambda>row. \<not> any_in (snd row) (lower ''What is the PRICE?'')) pricing_patterns"
    by code_simp
  then have p2: "\<forall>row \<in> set pricing_patterns. \<not> any_in (snd row) (lower ''What is the PRICE?'')"
    by (simp only: list_all_iff)
  have c: "\<not> any_in pricing_keywords (lower ''Please CALL me'') \<and>
           any_in contact_keywords (lower ''Please CALL me'')"
    by code_simp
  have l: "\<not> any_in pricing_keywords (lower ''Which branch?'') \<and>
           \<not> any_in contact_keywords (lower ''Which branch?'') \<and>
           any_in location_keywords (lower ''Which branch?'')"
    by code_simp
  have f: "\<not> any_in pricing_keywords (lower ''Do you have WiFi?'') \<and>
           \<not> any_in contact_keywords (lower ''Do you have WiFi?'') \<and>
           \<not> any_in location_keywords (lower ''Do you have WiFi?'') \<and>
           any_in facility_keywords (lower ''Do you have WiFi?'')"
    by code_simp
  have g: "\<not> any_in pricing_keywords (lower ''Hello'') \<and>
           \<not> any_in contact_keywords (lower ''Hello'') \<and>
           \<not> any_in location_keywords (lower ''Hello'') \<and>
           \<not> any_in facility_keywords (lower ''Hello'')"
    by code_simp
  have r1: "type (parse ''What is the PRICE?'') = PRICING \<and>
            is_specific (parse ''What is the PRICE?'') = False \<and>
            entity (parse ''What is the PRICE?'') = None"
    using parse_cascade [of "''What is the PRICE?''"] p1 p2 by blast
  have r2: "type (parse ''Please CALL me'') = CONTACT"
    using parse_cascade [of "''Please CALL me''"] c by blast
  have r3: "type (parse ''Which branch?'') = LOCATION"
    using parse_cascade [of "''Which branch?''"] l by blast
  have r4: "type (parse ''Do you have WiFi?'') = FACILITY"
    using parse_cascade [of "''Do you have WiFi?''"] f by blast
  have r5: "parse ''Hello'' =
            \<lparr>type = GENERAL, is_specific = False, entity = None, timeframe = None\<rparr>"
    using parse_cascade [of "''Hello''"] g by blast
  show ?thesis
    by (intro conjI) (use p1 p2' c l f g r1 r2 r3 r4 r5 in \<open>blast+\<close>)
qed


section \<open>Properties of BizzHubKnowledgeBase\<close>

lemma has_key_dict: "is_dict v \<Longrightarrow> has_key v k = Inr (k \<in> Some ` set (dict_keys v))"
  by (cases v; cases k) (auto simp: is_dict_def dict_keys_def map_of_eq_None_iff image_iff)

lemma getitem_dict:
  "is_dict v \<Longrightarrow> getitem v (Some k) =
     (case map_of (dict_items v) k of None \<Rightarrow> Inl KeyError | Some x \<Rightarrow> Inr x)"
  by (cases v) (auto simp: is_dict_def)

lemma getitem_known:
  assumes "is_dict v" and "k \<in> Some ` set (dict_keys v)"
  shows "\<exists>x. getitem v k = Inr x \<and> x \<in> snd ` set (dict_items v)"
proof -
  from assms(1) obtain d where v: "v = KDict d" by (auto simp: is_dict_def)
  from assms(2) v obtain a where k: "k = Some a" and a: "a \<in> fst ` set d"
    by (auto simp: dict_keys_def)
  from a obtain x where x: "map_of d a = Some x"
    by (cases "map_of d a") (auto simp: map_of_eq_None_iff)
  then have "(a, x) \<in> set d" by (rule map_of_SomeD)
  then have "x \<in> snd ` set d" by force
  with v k x show ?thesis by simp
qed

lemma data_pricing: "getitem (data kb_init) (Some ''pricing'') = Inr pricing_table"
  by (simp add: kb_init_def load_knowledge_base_def)
lemma data_contact: "getitem (data kb_init) (Some ''contact'') = Inr contact_table"
  by (simp add: kb_init_def load_knowledge_base_def)
lemma data_locations: "getitem (data kb_init) (Some ''locations'') = Inr locations_table"
  by (simp add: kb_init_def load_knowledge_base_def)
lemma data_facilities: "getitem (data kb_init) (Some ''facilities'') = Inr facilities_table"
  by (simp add: kb_init_def load_knowledge_base_def)

lemma pricing_is_dict: "is_dict pricing_table"
  by (simp add: is_dict_def pricing_table_def)

lemma pricing_items_described: "list_all (\<lambda>row. described (snd row)) (dict_items pricing_table)"
  by (simp add: pricing_table_def described_def is_dict_def)

lemma get_pricing_known:
  assumes "e \<in> Some ` set (dict_keys pricing_table)"
  shows "\<exists>r. get_pricing kb_init e t = Inr r"
proof -
  have known: "has_key pricing_table e = Inr True"
    using assms by (simp add: has_key_dict pricing_is_dict)
  obtain item where item: "getitem pricing_table e = Inr item"
    and mem: "item \<in> snd ` set (dict_items pricing_table)"
    using getitem_known [OF pricing_is_dict assms] by blast
  from mem pricing_items_described have "described item"
    by (auto simp: list_all_iff)
  then obtain desc where d: "is_dict item" "map_of (dict_items item) ''description'' = Some desc"
    by (auto simp: described_def)
  show ?thesis
  proof (cases "truthy t \<and> t \<in> Some ` set (dict_keys item)")
    case False
    then have "(if truthy t then has_key item t else Inr False) = Inr False"
      using d by (simp add: has_key_dict)
    then show ?thesis
      using known item by (simp add: get_pricing_def data_pricing and_then_def)
  next
    case True
    then have w: "(if truthy t then has_key item t else Inr False) = Inr True"
      using d by (simp add: has_key_dict)
    from True obtain tk where t: "t = Some tk" by (cases t) auto
    from True d(1) obtain price where price: "getitem item t = Inr price"
      using getitem_known by blast
    have desc: "getitem item (Some ''description'') = Inr desc"
      using d by (simp add: getitem_dict)
    have "\<exists>inc. get_default item ''includes'' (KList []) = Inr inc"
      using d(1) by (cases item) (auto simp: is_dict_def split: option.splits)
    then obtain inc where inc: "get_default item ''includes'' (KList []) = Inr inc" ..
    obtain hv where hv: "has_key item (Some ''variations'') = Inr hv"
      using d(1) by (simp add: has_key_dict)
    have var: "hv \<Longrightarrow> \<exists>v. getitem item (Some ''variations'') = Inr v"
      using hv d(1) getitem_known [OF d(1), of "Some ''variations''"]
      by (auto simp: has_key_dict)
    show ?thesis
    proof (cases hv)
      case True
      with var obtain v where "getitem item (Some ''variations'') = Inr v" by blast
      then show ?thesis
        using known item w desc price inc hv True
        by (simp add: get_pricing_def data_pricing and_then_def Let_def)
    next
      case False
      then show ?thesis
        using known item w desc price inc hv
        by (simp add: get_pricing_def data_pricing and_then_def Let_def)
    qed
  qed
qed

lemma get_pricing_unknown:
  assumes "e \<notin> Some ` set (dict_keys pricing_table)"
  shows "get_pricing kb_init e t = Inr (KDict [])"
proof -
  have "has_key pricing_table e = Inr False"
    using assms by (simp add: has_key_dict pricing_is_dict)
  then show ?thesis by (simp add: get_pricing_def data_pricing and_then_def)
qed

lemma get_pricing_returns: "\<exists>r. get_pricing kb_init e t = Inr r"
  using get_pricing_known get_pricing_unknown by (cases "e \<in> Some ` set (dict_keys pricing_table)") auto


lemma contact_is_dict: "is_dict contact_table"
  by (simp add: is_dict_def contact_table_def)

lemma locations_is_dict: "is_dict locations_table"
  by (simp add: is_dict_def locations_table_def)

lemma facilities_is_dict: "is_dict facilities_table"
  by (simp add: is_dict_def facilities_table_def)

lemma centers_is_dict: "is_dict contact_centers"
  by (simp add: is_dict_def contact_centers_def)

lemma contact_general_entry: "getitem contact_table (Some ''general'') = Inr contact_general"
  by (simp add: contact_table_def)

lemma contact_centers_entry: "getitem contact_table (Some ''centers'') = Inr contact_centers"
  by (simp add: contact_table_def)

lemma centers_cover_locations: "set (dict_keys locations_table) \<subseteq> set (dict_keys contact_centers)"
  by (simp add: dict_keys_def locations_table_def contact_centers_def)

lemma get_contact_unknown:
  assumes "e \<notin> Some ` set (dict_keys contact_table)"
  shows "get_contact kb_init e = Inr contact_general"
proof -
  have "has_key contact_table e = Inr False"
    using assms by (simp add: has_key_dict contact_is_dict)
  then show ?thesis
    by (simp add: get_contact_def data_contact and_then_def contact_general_entry)
qed

lemma get_contact_returns: "\<exists>r. get_contact kb_init e = Inr r"
proof (cases "e \<in> Some ` set (dict_keys contact_table)")
  case True
  then have "has_key contact_table e = Inr True"
    by (simp add: has_key_dict contact_is_dict)
  moreover obtain x where "getitem contact_table e = Inr x"
    using getitem_known [OF contact_is_dict True] by blast
  ultimately show ?thesis
    by (simp add: get_contact_def data_contact and_then_def)
next
  case False
  then show ?thesis by (simp add: get_contact_unknown)
qed

lemma get_location_unknown:
  assumes "c = None \<or> c \<notin> Some ` set (dict_keys locations_table)"
  shows "get_location kb_init c = Inr locations_table"
proof -
  from assms have "c \<notin> Some ` set (dict_keys locations_table)" by auto
  then have "(if truthy c then has_key locations_table c else Inr False) = Inr False"
    by (simp add: has_key_dict locations_is_dict)
  then show ?thesis
    by (simp add: get_location_def data_locations and_then_def)
qed

lemma get_location_returns: "\<exists>r. get_location kb_init c = Inr r"
proof (cases "truthy c \<and> c \<in> Some ` set (dict_keys locations_table)")
  case True
  then have known: "(if truthy c then has_key locations_table c else Inr False) = Inr True"
    by (simp add: has_key_dict locations_is_dict)
  from True obtain address where address: "getitem locations_table c = Inr address"
    using getitem_known [OF locations_is_dict] by blast
  from True centers_cover_locations have "c \<in> Some ` set (dict_keys contact_centers)"
    by auto
  then obtain center_contact where cc: "getitem contact_centers c = Inr center_contact"
    using getitem_known [OF centers_is_dict] by blast
  show ?thesis
    using known address cc
    by (simp add: get_location_def data_locations data_contact contact_centers_entry
        and_then_def)
next
  case False
  then have "(if truthy c then has_key locations_table c else Inr False) = Inr False"
    by (simp add: has_key_dict locations_is_dict)
  then show ?thesis
    by (simp add: get_location_def data_locations and_then_def)
qed

lemma get_facility_unknown:
  assumes "f = None \<or> f \<notin> Some ` set (dict_keys facilities_table)"
  shows "get_facility kb_init f = Inr facilities_table"
proof -
  from assms have "f \<notin> Some ` set (dict_keys facilities_table)" by auto
  then have "(if truthy f then has_key facilities_table f else Inr False) = Inr False"
    by (simp add: has_key_dict facilities_is_dict)
  then show ?thesis
    by (simp add: get_facility_def data_facilities and_then_def)
qed

lemma get_facility_returns: "\<exists>r. get_facility kb_init f = Inr r"
proof (cases "truthy f \<and> f \<in> Some ` set (dict_keys facilities_table)")
  case True
  then have known: "(if truthy f then has_key facilities_table f else Inr False) = Inr True"
    by (simp add: has_key_dict facilities_is_dict)
  from True obtain x where "getitem facilities_table f = Inr x"
    using getitem_known [OF facilities_is_dict] by blast
  with known show ?thesis
    by (simp add: get_facility_def data_facilities and_then_def)
next
  case False
  then have "(if truthy f then has_key facilities_table f else Inr False) = Inr False"
    by (simp add: has_key_dict facilities_is_dict)
  then show ?thesis
    by (simp add: get_facility_def data_facilities and_then_def)
qed

text \<open>
  C9. Every accessor of the knowledge base returns a value, whatever argument it is given
  (a string or \<open>None\<close>), and never raises: \<open>get_pricing\<close> returns the empty mapping for
  an entity that is not a key of the pricing table, \<open>get_contact\<close> returns the
  \<open>general\<close> entry for an entity that is not a key of the contact table,
  \<open>get_location\<close> returns the whole location table when the center is \<open>None\<close> or not a
  key of it, and \<open>get_facility\<close> returns the whole facility table when the name is
  \<open>None\<close> or not a key of it.
\<close>

theorem knowledge_base_accessors_total:
  "(\<exists>r. get_pricing kb_init e t = Inr r) \<and>
   (\<exists>r. get_contact kb_init e = Inr r) \<and>
   (\<exists>r. get_location kb_init c = Inr r) \<and>
   (\<exists>r. get_facility kb_init f = Inr r) \<and>
   (e \<notin> Some ` set (dict_keys pricing_table) \<longrightarrow> get_pricing kb_init e t = Inr (KDict [])) \<and>
   (e \<notin> Some ` set (dict_keys contact_table) \<longrightarrow> get_contact kb_init e = Inr contact_general) \<and>
   (c = None \<or> c \<notin> Some ` set (dict_keys locations_table)
      \<longrightarrow> get_location kb_init c = Inr locations_table) \<and>
   (f = None \<or> f \<notin> Some ` set (dict_keys facilities_table)
      \<longrightarrow> get_facility kb_init f = Inr facilities_table)"
  using get_pricing_returns [of e t] get_contact_returns [of e] get_location_returns [of c]
    get_facility_returns [of f] get_pricing_unknown [of e t] get_contact_unknown [of e]
    get_location_unknown [of c] get_facility_unknown [of f]
  by blast

theorem knowledge_base_accessors_total_witness:
  "Some ''gym'' \<notin> Some ` set (dict_keys pricing_table) \<and>
   get_pricing kb_init (Some ''gym'') (Some ''monthly'') = Inr (KDict []) \<and>
   Some ''gym'' \<notin> Some ` set (dict_keys contact_table) \<and>
   get_contact kb_init (Some ''gym'') = Inr contact_general \<and>
   Some ''mysore'' \<notin> Some ` set (dict_keys locations_table) \<and>
   get_location kb_init (Some ''mysore'') = Inr locations_table \<and>
   get_location kb_init None = Inr locations_table \<and>
   Some ''gym'' \<notin> Some ` set (dict_keys facilities_table) \<and>
   get_facility kb_init (Some ''gym'') = Inr facilities_table \<and>
   get_facility kb_init None = Inr facilities_table"
proof -
  have h1: "Some ''gym'' \<notin> Some ` set (dict_keys pricing_table)"
    by (simp add: dict_keys_def pricing_table_def)
  have h2: "Some ''gym'' \<notin> Some ` set (dict_keys contact_table)"
    by (simp add: dict_keys_def contact_table_def)
  have h3: "Some ''mysore'' \<notin> Some ` set (dict_keys locations_table)"
    by (simp add: dict_keys_def locations_table_def)
  have h4: "Some ''gym'' \<notin> Some ` set (dict_keys facilities_table)"
    by (simp add: dict_keys_def facilities_table_def)
  have r1: "get_pricing kb_init (Some ''gym'') (Some ''monthly'') = Inr (KDict [])"
    using knowledge_base_accessors_total [of "Some ''gym''" "Some ''monthly''" None None] h1
    by blast
  have r2: "get_contact kb_init (Some ''gym'') = Inr contact_general"
    using knowledge_base_accessors_total [of "Some ''gym''" None None None] h2 by blast
  have r3: "get_location kb_init (Some ''mysore'') = Inr locations_table"
    using knowledge_base_accessors_total [of None None "Some ''mysore''" None] h3 by blast
  have r4: "get_location kb_init None = Inr locations_table"
    using knowledge_base_accessors_total [of None None None None] by blast
  have r5: "get_facility kb_init (Some ''gym'') = Inr facilities_table"
    using knowledge_base_accessors_total [of None None None "Some ''gym''"] h4 by blast
  have r6: "get_facility kb_init None = Inr facilities_table"
    using knowledge_base_accessors_total [of None None None None] by blast
  show ?thesis
    by (intro conjI) (use h1 h2 h3 h4 r1 r2 r3 r4 r5 r6 in \<open>blast+\<close>)
qed


section \<open>Properties of ToolCall\<close>

lemma re_is_not_global: "load_global ''re'' = Inl NameError"
  by (simp add: load_global_def module_globals_def)

lemma calculate_always_error: "calculate w expression = PStr ''Calculation error''"
  by (simp add: calculate_def calculate_try_def re_is_not_global and_then_def)

text \<open>
  C1. The claim is that \<open>calculate\<close> returns 12 for \<open>2+2*5\<close> and \<open>Invalid expression\<close>
  for \<open>import os\<close>. In the code the name \<open>re\<close> is not bound where \<open>execute\<close> looks it
  up, the \<open>NameError\<close> is caught by the bare \<open>except\<close>, and both calls return
  \<open>Calculation error\<close>.
\<close>

theorem calculate_returns_calculation_error:
  "execute w \<lparr>name = ''calculate'', arguments = PDict [(''expression'', PStr ''2+2*5'')]\<rparr>
     = Inr (PStr ''Calculation error'') \<and>
   execute w \<lparr>name = ''calculate'', arguments = PDict [(''expression'', PStr ''import os'')]\<rparr>
     = Inr (PStr ''Calculation error'')"
  by (simp add: execute_def and_then_def calculate_always_error)


section \<open>Properties of LLMManager\<close>

lemma register_tool_keeps_registry:
  "tool_registry (fst (register_tool self tool_name schema)) = tool_registry self"
  by (simp add: register_tool_def)

lemma register_default_tools_identity: "register_default_tools self = self"
  by (simp add: register_default_tools_def register_tool_def)

lemma setup_providers_registry: "tool_registry (setup_providers w self) = tool_registry self"
  by (simp add: setup_providers_def Let_def)

lemma init_registry_empty: "tool_registry (LLMManager_init w) = []"
  by (simp add: LLMManager_init_def register_default_tools_identity setup_providers_registry)

lemma init_tools_empty: "get_available_tools (LLMManager_init w) = Inr []"
  by (simp add: get_available_tools_def init_registry_empty)

lemma init_providers: "set (providers (LLMManager_init w)) \<subseteq> {GEMINI, OPENAI}"
  by (auto simp: LLMManager_init_def register_default_tools_identity setup_providers_def Let_def
      split: if_splits)

text \<open>
  C2. The claim is that a freshly constructed manager has the three built-in tools in its
  registry and lists a schema for each. In the code \<open>_register_default_tools\<close> drops the
  decorator that \<open>register_tool\<close> returns, so nothing is stored: after construction the
  registry is empty and \<open>get_available_tools\<close> returns the empty list.
\<close>

theorem init_registers_no_tool:
  "tool_registry (LLMManager_init w) = [] \<and> get_available_tools (LLMManager_init w) = Inr []"
  by (simp add: init_registry_empty init_tools_empty)

lemma collect_error: "collect f xs = Inl e \<Longrightarrow> \<exists>x \<in> set xs. f x = Inl e"
  by (induction xs) (auto simp: and_then_def split: sum.splits)

lemma py_getitem_error: "py_getitem v k = Inl e \<Longrightarrow> is_Exception e"
  by (cases v) (auto simp: is_Exception_def split: option.splits)

lemma tool_function_name_error: "tool_function_name t = Inl e \<Longrightarrow> is_Exception e"
  by (auto simp: tool_function_name_def and_then_def split: sum.splits dest: py_getitem_error)

lemma as_str_error: "as_str v = Inl e \<Longrightarrow> is_Exception e"
  by (cases v) (auto simp: is_Exception_def)

lemma tool_names_error:
  assumes "and_then (collect tool_function_name tools) (py_join '', '') = Inl e"
  shows "is_Exception e"
proof (cases "collect tool_function_name tools")
  case (Inl e')
  with assms have "e' = e" by (simp add: and_then_def)
  with Inl show ?thesis using collect_error tool_function_name_error by blast
next
  case (Inr names)
  with assms have "collect as_str names = Inl e"
    by (auto simp: and_then_def py_join_def split: sum.splits)
  then show ?thesis using collect_error as_str_error by blast
qed

text \<open>
  C3. The claim is that with a non-empty tool list a reply that holds no tool call is
  returned as it is. \<open>_call_openai\<close> does so; \<open>_call_gemini\<close> has no \<open>return\<close> on that
  path and gives \<open>None\<close>, which \<open>generate_response\<close> reads as a failed call.
\<close>

theorem call_gemini_drops_plain_reply:
  assumes "tools \<noteq> []"
    and "\<forall>p. generate_content w p = Inr reply"
    and "re_search_tool_call reply = None"
  shows "call_gemini w self prompt (Some tools) = Inr None"
proof -
  have "call_gemini_try w self prompt (Some tools) = Inr None \<or>
        (\<exists>e. call_gemini_try w self prompt (Some tools) = Inl e \<and> is_Exception e)"
  proof (cases "GEMINI \<in> set (providers self)")
    case False
    then show ?thesis by (simp add: call_gemini_try_def and_then_def is_Exception_def)
  next
    case True
    show ?thesis
    proof (cases "and_then (collect tool_function_name tools) (py_join '', '')")
      case (Inl e)
      then have "is_Exception e" by (rule tool_names_error)
      with Inl True assms show ?thesis
        by (auto simp: call_gemini_try_def and_then_def split: sum.splits)
    next
      case (Inr joined)
      with True assms show ?thesis
        by (auto simp: call_gemini_try_def and_then_def Let_def split: sum.splits)
    qed
  qed
  then show ?thesis
    by (auto simp: call_gemini_def except_Exception_def)
qed

theorem call_gemini_drops_plain_reply_witness:
  "[PDict [(''function'', PDict [(''name'', PStr ''calculate'')])]] \<noteq> [] \<and>
   (\<forall>p. generate_content (sample_world [] (Inr ''Hello'') (Inl RuntimeError)) p = Inr ''Hello'') \<and>
   re_search_tool_call ''Hello'' = None \<and>
   call_gemini (sample_world [] (Inr ''Hello'') (Inl RuntimeError))
     (\<lparr>providers = [GEMINI], active_provider = Some GEMINI, tool_registry = []\<rparr>
        :: unit LLMManager)
     ''Hi'' (Some [PDict [(''function'', PDict [(''name'', PStr ''calculate'')])]]) = Inr None"
proof -
  have h1: "[PDict [(''function'', PDict [(''name'', PStr ''calculate'')])]] \<noteq> []"
    by simp
  have h2: "\<forall>p. generate_content (sample_world [] (Inr ''Hello'') (Inl RuntimeError)) p
              = Inr ''Hello''"
    by (simp add: sample_world_def)
  have h3: "re_search_tool_call ''Hello'' = None"
    by code_simp
  from call_gemini_drops_plain_reply [OF h1 h2 h3] h1 h2 h3 show ?thesis
    by blast
qed

text \<open>
  The same defect seen from \<open>generate_response\<close>: once a tool has been registered through
  the decorator, a manager whose only provider is Gemini answers a plain reply with the
  fallback response.
\<close>

lemma generate_response_gemini_plain_reply:
  "generate_response (sample_world [(''GOOGLE_API_KEY'', ''k'')] (Inr ''Hello'') (Inl RuntimeError))
     (fst (wrapper ''calculate'' calculate_schema ()
        (LLMManager_init
           (sample_world [(''GOOGLE_API_KEY'', ''k'')] (Inr ''Hello'') (Inl RuntimeError)))))
     ''Hi'' True
   = Inr (fallback_response ''Hi'')"
  by code_simp

lemma call_gemini_provider:
  "call_gemini w self prompt tools = Inr (Some r) \<Longrightarrow> provider r = ''gemini''"
  by (auto simp: call_gemini_def except_Exception_def call_gemini_try_def and_then_def Let_def
      split: sum.splits option.splits if_splits prod.splits)

lemma call_openai_provider:
  "call_openai w self prompt tools = Inr (Some r) \<Longrightarrow> provider r = ''openai''"
  by (auto simp: call_openai_def except_Exception_def call_openai_try_def and_then_def Let_def
      split: sum.splits option.splits if_splits prod.splits)

text \<open>
  C4. When every configured provider's call returns \<open>None\<close> (in particular when none is
  configured), \<open>generate_response\<close> raises nothing and returns the response whose provider
  is \<open>fallback\<close>, whose tool calls are empty and whose content is the fixed apology
  followed by the first 100 characters of the prompt and three dots. The manager is any
  one whose providers are among Gemini and OpenAI and whose registered schemas can be
  listed, as after construction.
\<close>

theorem generate_response_fallback:
  assumes "LOCAL \<notin> set (providers self)"
    and "use_tools \<longrightarrow> get_available_tools self = Inr ts"
    and "tools = (if use_tools then Some ts else None)"
    and "GEMINI \<in> set (providers self) \<longrightarrow> call_gemini w self prompt tools = Inr None"
    and "OPENAI \<in> set (providers self) \<longrightarrow> call_openai w self prompt tools = Inr None"
  shows "\<exists>r. generate_response w self prompt use_tools = Inr r \<and>
             provider r = ''fallback'' \<and> tool_calls r = [] \<and>
             content r = ''I'm sorry, but I couldn't process your request. The input was: '' @
                         take 100 prompt @ ''...''"
proof -
  have tools: "(if use_tools then and_then (get_available_tools self) (\<lambda>ts. Inr (Some ts))
                else Inr None) = Inr tools"
    using assms(2,3) by (simp add: and_then_def)
  have g: "\<exists>v. try_active w self prompt tools GEMINI call_gemini Unbound = Inr (Inr v)"
    using assms(4) by (simp add: try_active_def and_then_def)
  then obtain v1 where v1: "try_active w self prompt tools GEMINI call_gemini Unbound = Inr (Inr v1)"
    ..
  have "\<exists>v. try_active w self prompt tools OPENAI call_openai v1 = Inr (Inr v)"
    using assms(5) by (simp add: try_active_def and_then_def)
  then obtain v2 where v2: "try_active w self prompt tools OPENAI call_openai v1 = Inr (Inr v2)"
    ..
  have loop: "fallback_loop w self prompt tools [GEMINI, OPENAI, LOCAL] v2 = Inr None"
    using assms(1,4,5) by (simp add: and_then_def)
  show ?thesis
    by (simp add: generate_response_def tools v1 v2 loop and_then_def fallback_response_def
        del: fallback_loop.simps)
qed

theorem generate_response_fallback_witness:
  "LOCAL \<notin> set (providers (LLMManager_init (sample_world [] (Inl RuntimeError) (Inl RuntimeError))
                              :: unit LLMManager)) \<and>
   get_available_tools (LLMManager_init (sample_world [] (Inl RuntimeError) (Inl RuntimeError))
                          :: unit LLMManager) = Inr [] \<and>
   GEMINI \<notin> set (providers (LLMManager_init (sample_world [] (Inl RuntimeError) (Inl RuntimeError))
                               :: unit LLMManager)) \<and>
   OPENAI \<notin> set (providers (LLMManager_init (sample_world [] (Inl RuntimeError) (Inl RuntimeError))
                               :: unit LLMManager)) \<and>
   generate_response (sample_world [] (Inl RuntimeError) (Inl RuntimeError))
     (LLMManager_init (sample_world [] (Inl RuntimeError) (Inl RuntimeError)) :: unit LLMManager)
     ''What is 100 USD in INR?'' True
   = Inr \<lparr>content = ''I'm sorry, but I couldn't process your request. The input was: What is 100 USD in INR?...'',
          tool_calls = [], provider = ''fallback''\<rparr> \<and>
   LOCAL \<notin> set (providers (LLMManager_init
       (sample_world [(''GOOGLE_API_KEY'', ''k''), (''OPENAI_API_KEY'', ''k'')]
          (Inl RuntimeError) (Inl RuntimeError)) :: unit LLMManager)) \<and>
   GEMINI \<in> set (providers (LLMManager_init
       (sample_world [(''GOOGLE_API_KEY'', ''k''), (''OPENAI_API_KEY'', ''k'')]
          (Inl RuntimeError) (Inl RuntimeError)) :: unit LLMManager)) \<and>
   OPENAI \<in> set (providers (LLMManager_init
       (sample_world [(''GOOGLE_API_KEY'', ''k''), (''OPENAI_API_KEY'', ''k'')]
          (Inl RuntimeError) (Inl RuntimeError)) :: unit LLMManager)) \<and>
   call_gemini (sample_world [(''GOOGLE_API_KEY'', ''k''), (''OPENAI_API_KEY'', ''k'')]
          (Inl RuntimeError) (Inl RuntimeError))
     (LLMManager_init (sample_world [(''GOOGLE_API_KEY'', ''k''), (''OPENAI_API_KEY'', ''k'')]
          (Inl RuntimeError) (Inl RuntimeError)) :: unit LLMManager) ''Hi'' (Some []) = Inr None \<and>
   call_openai (sample_world [(''GOOGLE_API_KEY'', ''k''), (''OPENAI_API_KEY'', ''k'')]
          (Inl RuntimeError) (Inl RuntimeError))
     (LLMManager_init (sample_world [(''GOOGLE_API_KEY'', ''k''), (''OPENAI_API_KEY'', ''k'')]
          (Inl RuntimeError) (Inl RuntimeError)) :: unit LLMManager) ''Hi'' (Some []) = Inr None \<and>
   generate_response (sample_world [(''GOOGLE_API_KEY'', ''k''), (''OPENAI_API_KEY'', ''k'')]
          (Inl RuntimeError) (Inl RuntimeError))
     (LLMManager_init (sample_world [(''GOOGLE_API_KEY'', ''k''), (''OPENAI_API_KEY'', ''k'')]
          (Inl RuntimeError) (Inl RuntimeError)) :: unit LLMManager)
     ''Hi'' True
   = Inr \<lparr>content = ''I'm sorry, but I couldn't process your request. The input was: Hi...'',
          tool_calls = [], provider = ''fallback''\<rparr>"
    (is "?a1 \<and> ?a2 \<and> ?a3 \<and> ?a4 \<and> ?a5 \<and> ?b1 \<and> ?b2 \<and> ?b3 \<and> ?b4 \<and> ?b5 \<and> ?b6")
proof -
  let ?w0 = "sample_world [] (Inl RuntimeError) (Inl RuntimeError)"
  let ?m0 = "LLMManager_init ?w0 :: unit LLMManager"
  let ?w1 = "sample_world [(''GOOGLE_API_KEY'', ''k''), (''OPENAI_API_KEY'', ''k'')]
               (Inl RuntimeError) (Inl RuntimeError)"
  let ?m1 = "LLMManager_init ?w1 :: unit LLMManager"
  have p0: "providers ?m0 = []"
    by (simp add: LLMManager_init_def register_default_tools_identity setup_providers_def
        sample_world_def)
  have p1: "providers ?m1 = [GEMINI, OPENAI]"
    by (simp add: LLMManager_init_def register_default_tools_identity setup_providers_def
        sample_world_def Let_def)
  have a1: ?a1 and a3: ?a3 and a4: ?a4 using p0 by simp_all
  have a2: ?a2 by (rule init_tools_empty)
  have b1: ?b1 and b2: ?b2 and b3: ?b3 using p1 by simp_all
  have b4: ?b4
    by (simp add: call_gemini_def call_gemini_try_def except_Exception_def and_then_def p1
        sample_world_def is_Exception_def)
  have b5: ?b5
    by (simp add: call_openai_def call_openai_try_def except_Exception_def and_then_def
        sample_world_def is_Exception_def)
  have t1: "get_available_tools ?m1 = Inr []" by (rule init_tools_empty)
  from generate_response_fallback [of ?m0 True "[]" "Some []" ?w0 "''What is 100 USD in INR?''"]
    a1 a2 a3 a4
  obtain r where r: "generate_response ?w0 ?m0 ''What is 100 USD in INR?'' True = Inr r"
    "provider r = ''fallback''" "tool_calls r = []"
    "content r = ''I'm sorry, but I couldn't process your request. The input was: '' @
                         take 100 ''What is 100 USD in INR?'' @ ''...''"
    by auto
  then have a5: ?a5 by (cases r) simp
  from generate_response_fallback [of ?m1 True "[]" "Some []" ?w1 "''Hi''"] b1 t1 b4 b5
  obtain r' where r': "generate_response ?w1 ?m1 ''Hi'' True = Inr r'"
    "provider r' = ''fallback''" "tool_calls r' = []"
    "content r' = ''I'm sorry, but I couldn't process your request. The input was: '' @
                         take 100 ''Hi'' @ ''...''"
    by auto
  then have b6: ?b6 by (cases r') simp
  from a1 a2 a3 a4 a5 b1 b2 b3 b4 b5 b6 show ?thesis by blast
qed

text \<open>
  C5. When the active provider is configured and its call returns \<open>None\<close>, and the other
  provider is configured and its call returns a result, \<open>generate_response\<close> returns that
  result, and the result's provider field is the other provider's identifier. Stated for
  Gemini active with OpenAI as the other provider, and the other way round.
\<close>

theorem generate_response_other_provider:
  assumes "use_tools \<longrightarrow> get_available_tools self = Inr ts"
    and "tools = (if use_tools then Some ts else None)"
  shows "(active_provider self = Some GEMINI \<and> GEMINI \<in> set (providers self) \<and>
          call_gemini w self prompt tools = Inr None \<and>
          OPENAI \<in> set (providers self) \<and> call_openai w self prompt tools = Inr (Some r)
            \<longrightarrow> generate_response w self prompt use_tools = Inr r \<and>
                provider r = provider_value OPENAI) \<and>
         (active_provider self = Some OPENAI \<and> OPENAI \<in> set (providers self) \<and>
          call_openai w self prompt tools = Inr None \<and>
          GEMINI \<in> set (providers self) \<and> call_gemini w self prompt tools = Inr (Some r)
            \<longrightarrow> generate_response w self prompt use_tools = Inr r \<and>
                provider r = provider_value GEMINI)"
proof -
  have tools: "(if use_tools then and_then (get_available_tools self) (\<lambda>ts. Inr (Some ts))
                else Inr None) = Inr tools"
    using assms by (simp add: and_then_def)
  have gemini_first: "generate_response w self prompt use_tools = Inr r"
    if "active_provider self = Some GEMINI" "GEMINI \<in> set (providers self)"
      "call_gemini w self prompt tools = Inr None"
      "OPENAI \<in> set (providers self)" "call_openai w self prompt tools = Inr (Some r)"
  proof -
    have 1: "try_active w self prompt tools GEMINI call_gemini Unbound = Inr (Inr (Bound None))"
      using that by (simp add: try_active_def and_then_def)
    have 2: "try_active w self prompt tools OPENAI call_openai (Bound None)
               = Inr (Inr (Bound None))"
      using that by (simp add: try_active_def)
    have 3: "fallback_loop w self prompt tools [GEMINI, OPENAI, LOCAL] (Bound None)
               = Inr (Some r)"
      using that by (simp add: and_then_def)
    show ?thesis
      by (simp add: generate_response_def tools 1 2 3 and_then_def del: fallback_loop.simps)
  qed
  have openai_first: "generate_response w self prompt use_tools = Inr r"
    if "active_provider self = Some OPENAI" "OPENAI \<in> set (providers self)"
      "call_openai w self prompt tools = Inr None"
      "GEMINI \<in> set (providers self)" "call_gemini w self prompt tools = Inr (Some r)"
  proof -
    have 1: "try_active w self prompt tools GEMINI call_gemini Unbound = Inr (Inr Unbound)"
      using that by (simp add: try_active_def)
    have 2: "try_active w self prompt tools OPENAI call_openai Unbound
               = Inr (Inr (Bound None))"
      using that by (simp add: try_active_def and_then_def)
    have 3: "fallback_loop w self prompt tools [GEMINI, OPENAI, LOCAL] (Bound None)
               = Inr (Some r)"
      using that by (simp add: and_then_def)
    show ?thesis
      by (simp add: generate_response_def tools 1 2 3 and_then_def del: fallback_loop.simps)
  qed
  show ?thesis
    using gemini_first openai_first call_openai_provider [of w self prompt tools r]
      call_gemini_provider [of w self prompt tools r]
    by simp
qed

theorem generate_response_other_provider_witness:
  "get_available_tools
     (LLMManager_init (sample_world [(''GOOGLE_API_KEY'', ''k''), (''OPENAI_API_KEY'', ''k'')]
        (Inl RuntimeError) (Inr \<lparr>message_content = ''Hi there'', function_call = None\<rparr>))
      :: unit LLMManager) = Inr [] \<and>
   active_provider
     (LLMManager_init (sample_world [(''GOOGLE_API_KEY'', ''k''), (''OPENAI_API_KEY'', ''k'')]
        (Inl RuntimeError) (Inr \<lparr>message_content = ''Hi there'', function_call = None\<rparr>))
      :: unit LLMManager) = Some GEMINI \<and>
   providers
     (LLMManager_init (sample_world [(''GOOGLE_API_KEY'', ''k''), (''OPENAI_API_KEY'', ''k'')]
        (Inl RuntimeError) (Inr \<lparr>message_content = ''Hi there'', function_call = None\<rparr>))
      :: unit LLMManager) = [GEMINI, OPENAI] \<and>
   call_gemini
     (sample_world [(''GOOGLE_API_KEY'', ''k''), (''OPENAI_API_KEY'', ''k'')]
        (Inl RuntimeError) (Inr \<lparr>message_content = ''Hi there'', function_call = None\<rparr>))
     (LLMManager_init (sample_world [(''GOOGLE_API_KEY'', ''k''), (''OPENAI_API_KEY'', ''k'')]
        (Inl RuntimeError) (Inr \<lparr>message_content = ''Hi there'', function_call = None\<rparr>))
      :: unit LLMManager) ''Hi'' (Some []) = Inr None \<and>
   call_openai
     (sample_world [(''GOOGLE_API_KEY'', ''k''), (''OPENAI_API_KEY'', ''k'')]
        (Inl RuntimeError) (Inr \<lparr>message_content = ''Hi there'', function_call = None\<rparr>))
     (LLMManager_init (sample_world [(''GOOGLE_API_KEY'', ''k''), (''OPENAI_API_KEY'', ''k'')]
        (Inl RuntimeError) (Inr \<lparr>message_content = ''Hi there'', function_call = None\<rparr>))
      :: unit LLMManager) ''Hi'' (Some [])
     = Inr (Some \<lparr>content = ''Hi there'', tool_calls = [], provider = ''openai''\<rparr>) \<and>
   generate_response
     (sample_world [(''GOOGLE_API_KEY'', ''k''), (''OPENAI_API_KEY'', ''k'')]
        (Inl RuntimeError) (Inr \<lparr>message_content = ''Hi there'', function_call = None\<rparr>))
     (LLMManager_init (sample_world [(''GOOGLE_API_KEY'', ''k''), (''OPENAI_API_KEY'', ''k'')]
        (Inl RuntimeError) (Inr \<lparr>message_content = ''Hi there'', function_call = None\<rparr>))
      :: unit LLMManager) ''Hi'' True
     = Inr \<lparr>content = ''Hi there'', tool_calls = [], provider = ''openai''\<rparr> \<and>
   call_openai (sample_world [] (Inr ''Hello'') (Inl RuntimeError))
     (\<lparr>providers = [GEMINI, OPENAI], active_provider = Some OPENAI, tool_registry = []\<rparr>
        :: unit LLMManager) ''Hi'' None = Inr None \<and>
   call_gemini (sample_world [] (Inr ''Hello'') (Inl RuntimeError))
     (\<lparr>providers = [GEMINI, OPENAI], active_provider = Some OPENAI, tool_registry = []\<rparr>
        :: unit LLMManager) ''Hi'' None
     = Inr (Some \<lparr>content = ''Hello'', tool_calls = [], provider = ''gemini''\<rparr>) \<and>
   generate_response (sample_world [] (Inr ''Hello'') (Inl RuntimeError))
     (\<lparr>providers = [GEMINI, OPENAI], active_provider = Some OPENAI, tool_registry = []\<rparr>
        :: unit LLMManager) ''Hi'' False
     = Inr \<lparr>content = ''Hello'', tool_calls = [], provider = ''gemini''\<rparr>"
    (is "?a1 \<and> ?a2 \<and> ?a3 \<and> ?a4 \<and> ?a5 \<and> ?a6 \<and> ?b1 \<and> ?b2 \<and> ?b3")
proof -
  let ?w1 = "sample_world [(''GOOGLE_API_KEY'', ''k''), (''OPENAI_API_KEY'', ''k'')]
        (Inl RuntimeError) (Inr \<lparr>message_content = ''Hi there'', function_call = None\<rparr>)"
  let ?m1 = "LLMManager_init ?w1 :: unit LLMManager"
  let ?w2 = "sample_world [] (Inr ''Hello'') (Inl RuntimeError)"
  let ?m2 = "\<lparr>providers = [GEMINI, OPENAI], active_provider = Some OPENAI, tool_registry = []\<rparr>
               :: unit LLMManager"
  have a1: ?a1 by (rule init_tools_empty)
  have a2: ?a2
    by (simp add: LLMManager_init_def register_default_tools_identity setup_providers_def
        sample_world_def Let_def)
  have a3: ?a3
    by (simp add: LLMManager_init_def register_default_tools_identity setup_providers_def
        sample_world_def Let_def)
  have a4: ?a4
    by (simp add: call_gemini_def call_gemini_try_def except_Exception_def and_then_def a3
        sample_world_def is_Exception_def)
  have a5: ?a5
    by (simp add: call_openai_def call_openai_try_def except_Exception_def and_then_def
        sample_world_def)
  have a6: ?a6
    using generate_response_other_provider [of True ?m1 "[]" "Some []" ?w1 "''Hi''"
        "\<lparr>content = ''Hi there'', tool_calls = [], provider = ''openai''\<rparr>"]
      a1 a2 a3 a4 a5
    by simp
  have b1: ?b1
    by (simp add: call_openai_def call_openai_try_def except_Exception_def and_then_def
        sample_world_def is_Exception_def)
  have b2: ?b2
    by (simp add: call_gemini_def call_gemini_try_def except_Exception_def and_then_def
        sample_world_def)
  have b3: ?b3
    using generate_response_other_provider [of False ?m2 "[]" None ?w2 "''Hi''"
        "\<lparr>content = ''Hello'', tool_calls = [], provider = ''gemini''\<rparr>"]
      b1 b2
    by simp
  from a1 a2 a3 a4 a5 a6 b1 b2 b3 show ?thesis by blast
qed


section \<open>Properties of FAQRAGSystem\<close>

lemma find_similar_faqs_raises: "find_similar_faqs lib self query top_k = Inl AttributeError"
  by (cases "faq_vectors self") (simp_all add: find_similar_faqs_def index_any_def and_then_def)

text \<open>
  C7. The claim is that \<open>get_answer\<close> returns the best entry's answer with \<open>True\<close>
  exactly when the highest similarity exceeds 0.3, and \<open>(None, False)\<close> otherwise. In
  the code the guard of \<open>_find_similar_faqs\<close> calls \<open>any()\<close> on the index, which the
  index does not have: \<open>AttributeError\<close> is raised before a similarity is computed, for
  every query and every state of the system, and \<open>get_answer\<close> passes it on.
\<close>

theorem get_answer_raises_attribute_error:
  "get_answer lib self query = Inl AttributeError"
  by (simp add: get_answer_def find_similar_faqs_raises and_then_def)

text \<open>
  C10. The claim is that a query that is empty or all whitespace gets \<open>(None, False)\<close>
  from an empty candidate list. In the code the guard asks the index for \<open>any()\<close> before
  it looks at the query, so the search and \<open>get_answer\<close> raise \<open>AttributeError\<close> for
  the empty query and for a query of blanks as for any other.
\<close>

theorem blank_query_raises_attribute_error:
  "find_similar_faqs lib self [] top_k = Inl AttributeError \<and>
   get_answer lib self [] = Inl AttributeError \<and>
   find_similar_faqs lib self [CHR 0x20, CHR 0x09, CHR 0x0A] top_k = Inl AttributeError \<and>
   get_answer lib self [CHR 0x20, CHR 0x09, CHR 0x0A] = Inl AttributeError"
  by (simp add: get_answer_def find_similar_faqs_raises and_then_def)

theorem blank_query_raises_attribute_error_witness:
  "find_similar_faqs (sample_sklearn [])
     \<lparr>faqs = default_faqs, vectorizer = (), faq_vectors = Some (map (\<lambda>f. [1]) default_faqs)\<rparr>
     [] 2 = Inl AttributeError \<and>
   get_answer (sample_sklearn [])
     \<lparr>faqs = default_faqs, vectorizer = (), faq_vectors = Some (map (\<lambda>f. [1]) default_faqs)\<rparr>
     [] = Inl AttributeError \<and>
   find_similar_faqs (sample_sklearn [])
     \<lparr>faqs = default_faqs, vectorizer = (), faq_vectors = Some (map (\<lambda>f. [1]) default_faqs)\<rparr>
     [CHR 0x20, CHR 0x09, CHR 0x0A] 2 = Inl AttributeError \<and>
   get_answer (sample_sklearn [])
     \<lparr>faqs = default_faqs, vectorizer = (), faq_vectors = Some (map (\<lambda>f. [1]) default_faqs)\<rparr>
     [CHR 0x20, CHR 0x09, CHR 0x0A] = Inl AttributeError"
  by (rule blank_query_raises_attribute_error)

text \<open>
  \<open>add_faq\<close> appends the entry and rebuilds the whole index: the vectorizer is fitted
  again on every question, the new one last.
\<close>

lemma add_faq_rebuilds_index:
  assumes "fit_transform lib (vectorizer self) (map question (faqs self) @ [q])
             = Inr (fitted, vectors)"
  shows "add_faq lib self q a c =
           Inr \<lparr>faqs = faqs self @ [\<lparr>question = q, answer = a, category = c, embeddings = None\<rparr>],
                vectorizer = fitted, faq_vectors = Some vectors\<rparr>"
  using assms by (simp add: add_faq_def build_index_def)

lemma add_faq_appends:
  assumes "add_faq lib self q a c = Inr self'"
  shows "faqs self' = faqs self @ [\<lparr>question = q, answer = a, category = c, embeddings = None\<rparr>]"
  using assms
  by (auto simp: add_faq_def build_index_def split: sum.splits if_splits prod.splits)

text \<open>
  C8. The claim is that an entry added by \<open>add_faq\<close> is retrieved by its own question:
  \<open>get_answer\<close> returns its answer with \<open>True\<close>. In the code \<open>add_faq\<close> does append
  the entry and rebuild the index, but the query that follows raises \<open>AttributeError\<close>
  in the guard of \<open>_find_similar_faqs\<close>, as every query does.
\<close>

theorem add_faq_round_trip_raises:
  assumes "add_faq lib self q a c = Inr self'"
  shows "faqs self' = faqs self @ [\<lparr>question = q, answer = a, category = c, embeddings = None\<rparr>] \<and>
         get_answer lib self' q = Inl AttributeError"
  using add_faq_appends [OF assms]
  by (simp add: get_answer_def find_similar_faqs_raises and_then_def)

theorem add_faq_round_trip_raises_witness:
  "FAQRAGSystem_init (sample_sklearn []) ()
     = Inr \<lparr>faqs = default_faqs, vectorizer = (),
            faq_vectors = Some (map (\<lambda>f. [1]) default_faqs)\<rparr> \<and>
   add_faq (sample_sklearn [])
     \<lparr>faqs = default_faqs, vectorizer = (), faq_vectors = Some (map (\<lambda>f. [1]) default_faqs)\<rparr>
     ''Do you ship abroad?'' ''Ask the merchant.'' ''general''
     = Inr \<lparr>faqs = default_faqs @
                     [\<lparr>question = ''Do you ship abroad?'', answer = ''Ask the merchant.'',
                       category = ''general'', embeddings = None\<rparr>],
            vectorizer = (),
            faq_vectors = Some (map (\<lambda>f. [1]) default_faqs @ [[1]])\<rparr> \<and>
   get_answer (sample_sklearn [])
     \<lparr>faqs = default_faqs @
               [\<lparr>question = ''Do you ship abroad?'', answer = ''Ask the merchant.'',
                 category = ''general'', embeddings = None\<rparr>],
      vectorizer = (),
      faq_vectors = Some (map (\<lambda>f. [1]) default_faqs @ [[1]])\<rparr>
     ''Do you ship abroad?''
     = Inl AttributeError"
    (is "?w1 \<and> ?w2 \<and> ?w3")
proof -
  have ne: "default_faqs \<noteq> []" by (simp add: default_faqs_def)
  have w1: ?w1
    using ne by (simp add: FAQRAGSystem_init_def build_index_def sample_sklearn_def o_def)
  have w2: ?w2
    by (simp add: add_faq_def build_index_def sample_sklearn_def o_def)
  have w3: ?w3
    using add_faq_round_trip_raises [OF w2] by simp
  from w1 w2 w3 show ?thesis by blast
qed


section \<open>The ranking behind the guard\<close>

text \<open>
  What the statements after the guard of \<open>_find_similar_faqs\<close> and the \<open>if\<close> of
  \<open>get_answer\<close> do with the similarities the library reports, were they reached: the
  entry that \<open>argsort\<close> ranks last is the one looked at, it attains the highest
  similarity, and its answer is accepted exactly when that similarity exceeds the
  acceptance threshold.
\<close>

lemma thresholds_ordered: "display_threshold < accept_threshold"
  by (simp add: display_threshold_def accept_threshold_def)

lemma similar_loop_filter:
  assumes "\<forall>i \<in> set idxs. i < length sims \<and> i < length fs"
  shows "similar_loop fs sims idxs =
           Inr (map (\<lambda>i. (fs ! i, sims ! i)) (filter (\<lambda>i. sims ! i > display_threshold) idxs))"
  using assms by (induction idxs) (simp_all add: item_at_def and_then_def)

lemma rev_nonempty: "xs \<noteq> [] \<Longrightarrow> rev xs = last xs # rev (butlast xs)"
  by (induction xs rule: rev_induct) simp_all

lemma top_indices_head:
  assumes "order \<noteq> []" and "0 < k"
  shows "\<exists>rest. rev (last_k k order) = last order # rest \<and> set rest \<subseteq> set order"
proof -
  define top where "top = drop (length order - k) order"
  from assms have ne: "top \<noteq> []" unfolding top_def by (cases order) simp_all
  from assms have l: "last top = last order" unfolding top_def by (simp add: last_drop)
  have sub: "set (rev (butlast top)) \<subseteq> set order"
    unfolding top_def by (auto dest: in_set_butlastD in_set_dropD)
  have "last_k k order = top" using assms(2) by (simp add: last_k_def top_def)
  then have "rev (last_k k order) = last order # rev (butlast top)"
    using rev_nonempty [OF ne] l by simp
  with sub show ?thesis by blast
qed

lemma sorted_last_greatest:
  assumes "sorted (map f order)" and "x \<in> set order"
  shows "f x \<le> f (last order)"
proof -
  from assms(2) obtain i where i: "i < length order" "order ! i = x"
    by (auto simp: in_set_conv_nth)
  then have ne: "order \<noteq> []" by auto
  have "map f order ! i \<le> map f order ! (length order - 1)"
    using assms(1) i(1) by (intro sorted_nth_mono) auto
  with i ne show ?thesis by (simp add: last_conv_nth)
qed

lemma argsort_last_is_max:
  assumes "sims \<noteq> []"
    and "set order = {0..<length sims}"
    and "sorted (map ((!) sims) order)"
  shows "last order < length sims \<and> sims ! last order = Max (set sims)"
proof -
  from assms(1,2) have ne: "order \<noteq> []" by auto
  then have "last order \<in> set order" by simp
  with assms(2) have lt: "last order < length sims" by simp
  have "Max (set sims) = sims ! last order"
  proof (rule Max_eqI)
    show "finite (set sims)" by simp
    show "sims ! last order \<in> set sims" using lt by simp
    fix y assume "y \<in> set sims"
    then obtain j where "j < length sims" "sims ! j = y" by (auto simp: in_set_conv_nth)
    with assms(2) have "j \<in> set order" by simp
    from sorted_last_greatest [OF assms(3) this] \<open>sims ! j = y\<close>
    show "y \<le> sims ! last order" by simp
  qed
  with lt show ?thesis by simp
qed

lemma ranking_accepts_above_threshold:
  assumes tr: "transform lib (vectorizer self) [query] = Inr query_vector"
    and cs: "cosine_similarity lib query_vector (faq_vectors self) = Inr sim_matrix"
    and sims: "sims = concat sim_matrix"
    and len: "length sims = length (faqs self)" "sims \<noteq> []"
    and perm: "set (argsort lib sims) = {0..<length sims}"
    and sorted: "sorted (map ((!) sims) (argsort lib sims))"
  shows "and_then (rank_faqs lib self query 2) (\<lambda>similar_faqs. Inr (accept_best similar_faqs)) =
           Inr (if Max (set sims) > accept_threshold
                then (Some (answer (faqs self ! last (argsort lib sims))), True)
                else (None, False))"
proof -
  let ?order = "argsort lib sims"
  let ?best = "last ?order"
  from len(2) perm have ne: "?order \<noteq> []" by auto
  have best: "sims ! ?best = Max (set sims)"
    using argsort_last_is_max [OF len(2) perm sorted] by simp
  from top_indices_head [OF ne, of 2] obtain rest
    where top: "rev (last_k 2 ?order) = ?best # rest" and rest: "set rest \<subseteq> set ?order"
    by auto
  have in_range: "\<forall>i \<in> set (?best # rest). i < length sims \<and> i < length (faqs self)"
    using rest perm len(1) ne by (auto simp: subset_iff)
  have found: "rank_faqs lib self query 2 =
                 Inr (map (\<lambda>i. (faqs self ! i, sims ! i))
                       (filter (\<lambda>i. sims ! i > display_threshold) (?best # rest)))"
    using tr cs sims top similar_loop_filter [OF in_range]
    by (simp add: rank_faqs_def and_then_def Let_def del: similar_loop.simps)
  show ?thesis
  proof (cases "sims ! ?best > display_threshold")
    case True
    with found best show ?thesis by (simp add: accept_best_def and_then_def)
  next
    case False
    have "\<forall>i \<in> set (?best # rest). \<not> sims ! i > display_threshold"
    proof
      fix i assume "i \<in> set (?best # rest)"
      then have "i \<in> set ?order" using rest ne by auto
      from sorted_last_greatest [OF sorted this] False
      show "\<not> sims ! i > display_threshold" by simp
    qed
    then have "filter (\<lambda>i. sims ! i > display_threshold) (?best # rest) = []"
      by (simp only: filter_empty_conv)
    moreover from False thresholds_ordered best have "\<not> Max (set sims) > accept_threshold"
      by simp
    ultimately show ?thesis using found by (simp add: accept_best_def and_then_def)
  qed
qed

end
